theory Spec2Isabelle
  imports Complex_Main "HOL-Library.Word"
begin

section \<open>The OpenGL quad demo of \<^verbatim>\<open>src/main.cpp\<close>\<close>

text \<open>
  The program is a sequence of calls into SDL2 and OpenGL. Its embedding threads a
  record of the program's globals through the functions of \<^verbatim>\<open>main.cpp\<close>; every call
  into a library, every console output and every file access is appended to the field
  \<open>calls\<close>, in program order, with the arguments the source passes. What the libraries,
  the driver, the file system and the user answer is the input of the model: a record
  \<open>env\<close> of answers, and the finite list \<open>pending\<close> of the answers of
  \<^verbatim>\<open>SDL_PollEvent\<close> that are known so far. The helpers \<^verbatim>\<open>GLClearAllErrors\<close> and
  \<^verbatim>\<open>GLCheckErrorStatus\<close> and the macro \<^verbatim>\<open>GLCheck\<close> are never called by the program
  and have no counterpart here.
\<close>

subsection \<open>Values of the libraries' headers\<close>

text \<open>
  The headers of SDL2 and glad are not part of the sources. Their macros and enumerators
  are kept symbolic: one constructor for each name the program mentions, and no numeric
  value is assumed for any of them.
\<close>

type_synonym GLuint = "32 word"
type_synonym ptr = nat

definition nullptr :: ptr where
  "nullptr = 0"

datatype GLenum =
    GL_VERTEX_SHADER | GL_FRAGMENT_SHADER | GL_GEOMETRY_SHADER | GL_COMPUTE_SHADER
  | GL_VENDOR | GL_RENDERER | GL_VERSION | GL_SHADING_LANGUAGE_VERSION
  | GL_ARRAY_BUFFER | GL_ELEMENT_ARRAY_BUFFER | GL_STATIC_DRAW
  | GL_FLOAT | GL_UNSIGNED_INT | GL_TRIANGLES
  | GL_DEPTH_TEST | GL_CULL_FACE | GL_DEPTH_BUFFER_BIT | GL_COLOR_BUFFER_BIT
  | GL_COMPILE_STATUS | GL_INFO_LOG_LENGTH

datatype SDL_const = SDL_INIT_VIDEO | SDL_WINDOW_OPENGL | SDL_GL_CONTEXT_PROFILE_CORE

datatype SDL_GLattr =
    SDL_GL_CONTEXT_MAJOR_VERSION | SDL_GL_CONTEXT_MINOR_VERSION
  | SDL_GL_CONTEXT_PROFILE_MASK | SDL_GL_DOUBLEBUFFER | SDL_GL_DEPTH_SIZE

datatype attr_value = Lit int | Const SDL_const

text \<open>
  Of an \<^verbatim>\<open>SDL_Event\<close> the program reads the field \<^verbatim>\<open>type\<close> only, and compares it
  with \<^verbatim>\<open>SDL_QUIT\<close>. \<open>SDL_OTHER n\<close> is an event of any other type (keyboard, mouse,
  window, ...), \<open>n\<close> telling such events apart.
\<close>

datatype SDL_Event = SDL_QUIT | SDL_OTHER nat

text \<open>\<^verbatim>\<open>GL_FALSE\<close> is compared with an \<^verbatim>\<open>int\<close>; OpenGL defines it as zero.\<close>

definition GL_FALSE :: int where
  "GL_FALSE = 0"

text \<open>\<^verbatim>\<open>GLfloat\<close> and \<^verbatim>\<open>GLuint\<close> are the 32-bit types of OpenGL: four bytes each.\<close>

definition sizeof_GLfloat :: nat where
  "sizeof_GLfloat = 4"

definition sizeof_GLuint :: nat where
  "sizeof_GLuint = 4"

definition endl :: string where
  "endl = [CHR 0x0A]"

text \<open>
  What the reader of a C string sees of the bytes \<open>s\<close> of a \<^verbatim>\<open>char\<close> array: the bytes
  before the first zero byte.
\<close>

definition c_str :: "string \<Rightarrow> string" where
  "c_str s = takeWhile (\<lambda>c. c \<noteq> CHR 0x00) s"

subsection \<open>Calls, answers and the program's globals\<close>

text \<open>
  The data handed to \<^verbatim>\<open>glBufferData\<close>. The program computes with no float: a float
  literal is recorded as the decimal number the source writes.
\<close>

datatype buffer = Floats "real list" | UInts "GLuint list"

datatype call =
    SDL_Init SDL_const
  | SDL_GL_SetAttribute SDL_GLattr attr_value
  | SDL_CreateWindow string int int int int SDL_const
  | SDL_GL_CreateContext ptr
  | gladLoadGLLoader
  | glGetString GLenum
  | cout string
  | ifstream_open string
  | ifstream_close string
  | glGenVertexArrays int
  | glBindVertexArray GLuint
  | glGenBuffers int
  | glBindBuffer GLenum GLuint
  | glBufferData GLenum nat buffer GLenum
  | glEnableVertexAttribArray GLuint
  | glVertexAttribPointer GLuint int GLenum int nat nat
  | glDisableVertexAttribArray GLuint
  | glCreateProgram
  | glCreateShader GLenum
  | glShaderSource GLuint string
  | glCompileShader GLuint
  | glGetShaderiv GLuint GLenum
  | glGetShaderInfoLog GLuint int
  | glDeleteShader GLuint
  | glAttachShader GLuint GLuint
  | glLinkProgram GLuint
  | glValidateProgram GLuint
  | glDetachShader GLuint GLuint
  | SDL_PollEvent "SDL_Event option"
  | glDisable GLenum
  | glViewport int int int int
  | glClearColor real real real real
  | glClear "GLenum list"
  | glUseProgram GLuint
  | glDrawElements GLenum int GLenum nat
  | SDL_GL_SwapWindow ptr
  | SDL_DestroyWindow ptr
  | SDL_Quit

text \<open>
  The answers of the environment. \<open>glGenBuffers_ret env k\<close> is the name generated by the
  \<open>k\<close>-th call of \<^verbatim>\<open>glGenBuffers\<close>; \<open>file_contents env f\<close> is \<open>None\<close> when the file
  \<open>f\<close> cannot be opened, and its bytes otherwise. \<open>glGetShaderInfoLog_ret env so\<close> is the
  information log that the driver holds for the shader \<open>so\<close>. \<open>empty_array_read env so\<close>
  are the bytes that a reader finds at the array of no element that \<^verbatim>\<open>CompileShader\<close>
  allocates for the log of \<open>so\<close> when the driver says that the log has length 0: bytes
  that the program never wrote.
\<close>

record env =
  SDL_Init_ret :: int
  SDL_CreateWindow_ret :: ptr
  SDL_GL_CreateContext_ret :: ptr
  gladLoadGLLoader_ret :: int
  glGetString_ret :: "GLenum \<Rightarrow> string"
  glGenVertexArrays_ret :: GLuint
  glGenBuffers_ret :: "nat \<Rightarrow> GLuint"
  file_contents :: "string \<Rightarrow> string option"
  glCreateProgram_ret :: GLuint
  glCreateShader_ret :: "GLenum \<Rightarrow> GLuint"
  glGetShaderiv_ret :: "GLuint \<Rightarrow> GLenum \<Rightarrow> int"
  glGetShaderInfoLog_ret :: "GLuint \<Rightarrow> string"
  empty_array_read :: "GLuint \<Rightarrow> string"

text \<open>
  The globals of the program, the calls made so far, and the answers of
  \<^verbatim>\<open>SDL_PollEvent\<close> still to come: \<open>Some e\<close> is an event taken from the queue, \<open>None\<close>
  the answer 0 of an empty queue.
\<close>

record world =
  gScreenWidth :: int
  gScreenHeight :: int
  gGraphicsApplicationWindow :: ptr
  gOpenGLContext :: ptr
  gQuit :: bool
  gGraphicsPipelineShaderProgram :: GLuint
  gVertexArrayObject :: GLuint
  gVertexBufferObject :: GLuint
  gIndexBufferObject :: GLuint
  calls :: "call list"
  pending :: "SDL_Event option list"

text \<open>
  A function stops the program early with \<open>Exit n\<close> (a call of \<^verbatim>\<open>exit(n)\<close>), with
  \<open>UninitRead\<close> (it reads a local variable that was never assigned), with
  \<open>BadArrayNewLength\<close> (\<^verbatim>\<open>new char[length]\<close> with a negative length throws
  \<^verbatim>\<open>std::bad_array_new_length\<close>, which nothing catches), or with \<open>Pending\<close>: the program
  is inside \<^verbatim>\<open>SDL_PollEvent\<close> and the list of known answers is used up, so it is still
  running.
\<close>

datatype stop = Exit int | UninitRead | BadArrayNewLength | Pending

type_synonym 'a result = "(stop \<times> world) + 'a"

definition globals_start :: "SDL_Event option list \<Rightarrow> world" where
  "globals_start ps =
     \<lparr>gScreenWidth = 640, gScreenHeight = 480,
      gGraphicsApplicationWindow = nullptr, gOpenGLContext = nullptr,
      gQuit = False,
      gGraphicsPipelineShaderProgram = 0,
      gVertexArrayObject = 0, gVertexBufferObject = 0, gIndexBufferObject = 0,
      calls = [], pending = ps\<rparr>"

definition emit :: "call \<Rightarrow> world \<Rightarrow> world" where
  "emit c w = w\<lparr>calls := calls w @ [c]\<rparr>"

subsection \<open>Loading and compiling the shaders\<close>

text \<open>
  \<^verbatim>\<open>std::getline\<close> on the rest \<open>s\<close> of the stream: it fails at the end of the file;
  otherwise it extracts the characters before the next newline, or all of them when
  there is none, and discards that newline.
\<close>

definition getline :: "string \<Rightarrow> (string \<times> string) option" where
  "getline s =
     (if s = [] then None
      else Some (takeWhile (\<lambda>c. c \<noteq> CHR 0x0A) s, drop 1 (dropWhile (\<lambda>c. c \<noteq> CHR 0x0A) s)))"

lemma getline_Nil [simp]: "getline [] = None"
  by (simp add: getline_def)

lemma getline_rest_shorter: "getline s = Some (line, s') \<Longrightarrow> length s' < length s"
proof -
  assume "getline s = Some (line, s')"
  then have "s \<noteq> []" and "s' = drop 1 (dropWhile (\<lambda>c. c \<noteq> CHR 0x0A) s)"
    by (auto simp: getline_def split: if_splits)
  moreover have "length (dropWhile (\<lambda>c. c \<noteq> CHR 0x0A) s) \<le> length s"
    by (rule length_dropWhile_le)
  ultimately show ?thesis by (cases s) auto
qed

text \<open>The loop \<^verbatim>\<open>while(std::getline(myFile, line)) result += line + '\n';\<close>\<close>

function getline_loop :: "string \<Rightarrow> string \<Rightarrow> string" where
  "getline_loop s result =
     (case getline s of
        None \<Rightarrow> result
      | Some (line, s') \<Rightarrow> getline_loop s' (result @ line @ [CHR 0x0A]))"
  by pat_completeness auto
termination
  by (relation "measure (\<lambda>(s, result). length s)") (auto dest: getline_rest_shorter)

declare getline_loop.simps [simp del]

definition LoadShaderAsString :: "env \<Rightarrow> string \<Rightarrow> world \<Rightarrow> string \<times> world" where
  "LoadShaderAsString env filename w =
     (let w = emit (ifstream_open filename) w in
      case file_contents env filename of
        None \<Rightarrow> ([], w)
      | Some content \<Rightarrow> (getline_loop content [], emit (ifstream_close filename) w))"

text \<open>
  \<^verbatim>\<open>CompileShader\<close>. The local \<^verbatim>\<open>shaderObject\<close> is declared without a value and
  assigned in two branches only: it is \<open>None\<close> until assigned, and reading it then stops
  with \<open>UninitRead\<close>. \<^verbatim>\<open>glShaderSource\<close> is given \<^verbatim>\<open>source.c_str()\<close> and no length, so
  OpenGL reads the source as a C string. When the compilation has failed, the array
  \<^verbatim>\<open>errorMessages\<close> has \<open>len\<close> elements, \<open>len\<close> the answer for \<^verbatim>\<open>GL_INFO_LOG_LENGTH\<close>:
  a negative \<open>len\<close> lets \<^verbatim>\<open>new\<close> throw; with a positive \<open>len\<close> the driver writes the
  first \<open>len - 1\<close> characters of its log and a zero byte; with \<open>len = 0\<close> it writes
  nothing, and the output statement reads bytes that are not the program's. The
  console output of a statement is one \<open>cout\<close>.
\<close>

definition CompileShader :: "env \<Rightarrow> GLenum \<Rightarrow> string \<Rightarrow> world \<Rightarrow> (GLuint \<times> world) result" where
  "CompileShader env type source w =
     (let (shaderObject, w) =
        (if type = GL_VERTEX_SHADER
         then (Some (glCreateShader_ret env GL_VERTEX_SHADER), emit (glCreateShader GL_VERTEX_SHADER) w)
         else if type = GL_FRAGMENT_SHADER
         then (Some (glCreateShader_ret env GL_FRAGMENT_SHADER), emit (glCreateShader GL_FRAGMENT_SHADER) w)
         else (None, w))
      in case shaderObject of
        None \<Rightarrow> Inl (UninitRead, w)
      | Some so \<Rightarrow>
         (let w = emit (glShaderSource so (c_str source)) w;
              w = emit (glCompileShader so) w;
              w = emit (glGetShaderiv so GL_COMPILE_STATUS) w;
              result = glGetShaderiv_ret env so GL_COMPILE_STATUS
          in if result = GL_FALSE
             then
               (let w = emit (glGetShaderiv so GL_INFO_LOG_LENGTH) w;
                    len = glGetShaderiv_ret env so GL_INFO_LOG_LENGTH
                in if len < 0 then Inl (BadArrayNewLength, w)
                   else
                    (let w = emit (glGetShaderInfoLog so len) w;
                         errorMessages =
                           (if len = 0 then empty_array_read env so
                            else take (nat (len - 1)) (glGetShaderInfoLog_ret env so) @ [CHR 0x00]);
                         w = (if type = GL_VERTEX_SHADER
                              then emit (cout (''ERROR: GL_VERTEX_SHADER compilation failed!'' @ endl
                                               @ c_str errorMessages @ endl)) w
                              else if type = GL_FRAGMENT_SHADER
                              then emit (cout (''ERROR: GL_FRAGMENT_SHADER compilation failed!'' @ endl
                                               @ c_str errorMessages @ endl)) w
                              else w);
                         w = emit (glDeleteShader so) w
                     in Inr (0, w)))
             else Inr (so, w)))"

definition CreateShaderProgram :: "env \<Rightarrow> string \<Rightarrow> string \<Rightarrow> world \<Rightarrow> (GLuint \<times> world) result" where
  "CreateShaderProgram env vertexShaderSource fragmentShaderSource w =
     (let w = emit glCreateProgram w;
          programObject = glCreateProgram_ret env
      in case CompileShader env GL_VERTEX_SHADER vertexShaderSource w of
        Inl e \<Rightarrow> Inl e
      | Inr (myVertexShader, w) \<Rightarrow>
         (case CompileShader env GL_FRAGMENT_SHADER fragmentShaderSource w of
            Inl e \<Rightarrow> Inl e
          | Inr (myFragmentShader, w) \<Rightarrow>
             (let w = emit (glAttachShader programObject myVertexShader) w;
                  w = emit (glAttachShader programObject myFragmentShader) w;
                  w = emit (glLinkProgram programObject) w;
                  w = emit (glValidateProgram programObject) w;
                  w = emit (glDetachShader programObject myVertexShader) w;
                  w = emit (glDetachShader programObject myFragmentShader) w;
                  w = emit (glDeleteShader myVertexShader) w;
                  w = emit (glDeleteShader myFragmentShader) w
              in Inr (programObject, w))))"

definition CreateGraphicsPipeline :: "env \<Rightarrow> world \<Rightarrow> world result" where
  "CreateGraphicsPipeline env w =
     (let (vertexShaderSource, w) = LoadShaderAsString env ''./shaders/vert.glsl'' w;
          (fragmentShaderSource, w) = LoadShaderAsString env ''./shaders/frag.glsl'' w
      in case CreateShaderProgram env vertexShaderSource fragmentShaderSource w of
        Inl e \<Rightarrow> Inl e
      | Inr (programObject, w) \<Rightarrow> Inr (w\<lparr>gGraphicsPipelineShaderProgram := programObject\<rparr>))"

subsection \<open>The geometry\<close>

definition vertexData :: "real list" where
  "vertexData =
     [- 0.5, - 0.5, 0.0,
      1.0, 0.0, 0.0,
      0.5, - 0.5, 0.0,
      0.0, 1.0, 0.0,
      - 0.5, 0.5, 0.0,
      0.0, 0.0, 1.0,
      0.5, 0.5, 0.0,
      0.0, 1.0, 0.0]"

definition indexBufferData :: "GLuint list" where
  "indexBufferData = [2, 0, 1, 3, 2, 1]"

definition VertexSpecification :: "env \<Rightarrow> world \<Rightarrow> world" where
  "VertexSpecification env w =
     (let w = emit (glGenVertexArrays 1) w;
          w = w\<lparr>gVertexArrayObject := glGenVertexArrays_ret env\<rparr>;
          w = emit (glBindVertexArray (gVertexArrayObject w)) w;
          w = emit (glGenBuffers 1) w;
          w = w\<lparr>gVertexBufferObject := glGenBuffers_ret env 0\<rparr>;
          w = emit (glBindBuffer GL_ARRAY_BUFFER (gVertexBufferObject w)) w;
          w = emit (glBufferData GL_ARRAY_BUFFER (length vertexData * sizeof_GLfloat)
                      (Floats vertexData) GL_STATIC_DRAW) w;
          w = emit (glGenBuffers 1) w;
          w = w\<lparr>gIndexBufferObject := glGenBuffers_ret env 1\<rparr>;
          w = emit (glBindBuffer GL_ELEMENT_ARRAY_BUFFER (gIndexBufferObject w)) w;
          w = emit (glBufferData GL_ELEMENT_ARRAY_BUFFER (length indexBufferData * sizeof_GLuint)
                      (UInts indexBufferData) GL_STATIC_DRAW) w;
          w = emit (glEnableVertexAttribArray 0) w;
          w = emit (glVertexAttribPointer 0 3 GL_FLOAT GL_FALSE (sizeof_GLfloat * 6) 0) w;
          w = emit (glEnableVertexAttribArray 1) w;
          w = emit (glVertexAttribPointer 1 3 GL_FLOAT GL_FALSE (sizeof_GLfloat * 6)
                      (sizeof_GLfloat * 3)) w;
          w = emit (glBindVertexArray 0) w;
          w = emit (glDisableVertexAttribArray 0) w;
          w = emit (glDisableVertexAttribArray 1) w
      in w)"

subsection \<open>Initialization\<close>

definition GetOpenGLVersionInfo :: "env \<Rightarrow> world \<Rightarrow> world" where
  "GetOpenGLVersionInfo env w =
     (let w = emit (glGetString GL_VENDOR) w;
          w = emit (cout (''Vendor: '' @ glGetString_ret env GL_VENDOR @ endl)) w;
          w = emit (glGetString GL_RENDERER) w;
          w = emit (cout (''Renderer: '' @ glGetString_ret env GL_RENDERER @ endl)) w;
          w = emit (glGetString GL_VERSION) w;
          w = emit (cout (''Version: '' @ glGetString_ret env GL_VERSION @ endl)) w;
          w = emit (glGetString GL_SHADING_LANGUAGE_VERSION) w;
          w = emit (cout (''Shading Language: ''
                          @ glGetString_ret env GL_SHADING_LANGUAGE_VERSION @ endl)) w
      in w)"

definition InitializeProgram :: "env \<Rightarrow> world \<Rightarrow> world result" where
  "InitializeProgram env w =
     (let w = emit (SDL_Init SDL_INIT_VIDEO) w in
      if SDL_Init_ret env < 0
      then Inl (Exit 1, emit (cout (''SDL2 could not initialize video subsystem'' @ endl)) w)
      else
       (let w = emit (SDL_GL_SetAttribute SDL_GL_CONTEXT_MAJOR_VERSION (Lit 4)) w;
            w = emit (SDL_GL_SetAttribute SDL_GL_CONTEXT_MINOR_VERSION (Lit 1)) w;
            w = emit (SDL_GL_SetAttribute SDL_GL_CONTEXT_PROFILE_MASK
                        (Const SDL_GL_CONTEXT_PROFILE_CORE)) w;
            w = emit (SDL_GL_SetAttribute SDL_GL_DOUBLEBUFFER (Lit 1)) w;
            w = emit (SDL_GL_SetAttribute SDL_GL_DEPTH_SIZE (Lit 2)) w;
            w = emit (SDL_CreateWindow ''OpenGL Window'' 0 0 (gScreenWidth w) (gScreenHeight w)
                        SDL_WINDOW_OPENGL) w;
            w = w\<lparr>gGraphicsApplicationWindow := SDL_CreateWindow_ret env\<rparr>
        in if gGraphicsApplicationWindow w = nullptr
           then Inl (Exit 1, emit (cout (''SDL Window was not able to be created'' @ endl)) w)
           else
            (let w = emit (SDL_GL_CreateContext (gGraphicsApplicationWindow w)) w;
                 w = w\<lparr>gOpenGLContext := SDL_GL_CreateContext_ret env\<rparr>
             in if gOpenGLContext w = nullptr
                then Inl (Exit 1, emit (cout (''OpenGL context could not be created'' @ endl)) w)
                else
                 (let w = emit gladLoadGLLoader w in
                  if gladLoadGLLoader_ret env = 0
                  then Inl (Exit 1, emit (cout (''glad was not initialized'' @ endl)) w)
                  else Inr (GetOpenGLVersionInfo env w)))))"

subsection \<open>The render loop and the teardown\<close>

text \<open>
  \<^verbatim>\<open>Input\<close> is its \<^verbatim>\<open>while\<close> loop: every turn asks \<^verbatim>\<open>SDL_PollEvent\<close>, whose
  answer is the head of \<open>pending\<close>.
\<close>

function Input :: "world \<Rightarrow> world result" where
  "Input w =
     (case pending w of
        [] \<Rightarrow> Inl (Pending, w)
      | None # ps \<Rightarrow> Inr (emit (SDL_PollEvent None) (w\<lparr>pending := ps\<rparr>))
      | Some e # ps \<Rightarrow>
         (let w = emit (SDL_PollEvent (Some e)) (w\<lparr>pending := ps\<rparr>) in
          if e = SDL_QUIT
          then Input ((emit (cout (''Goodbye!'' @ endl)) w)\<lparr>gQuit := True\<rparr>)
          else Input w))"
  by pat_completeness auto
termination
  by (relation "measure (\<lambda>w. length (pending w))") (auto simp: emit_def)

declare Input.simps [simp del]

definition PreDraw :: "world \<Rightarrow> world" where
  "PreDraw w =
     (let w = emit (glDisable GL_DEPTH_TEST) w;
          w = emit (glDisable GL_CULL_FACE) w;
          w = emit (glViewport 0 0 (gScreenWidth w) (gScreenHeight w)) w;
          w = emit (glClearColor 0.03 0.05 0.27 1) w;
          w = emit (glClear [GL_DEPTH_BUFFER_BIT, GL_COLOR_BUFFER_BIT]) w;
          w = emit (glUseProgram (gGraphicsPipelineShaderProgram w)) w
      in w)"

definition Draw :: "world \<Rightarrow> world" where
  "Draw w =
     (let w = emit (glBindVertexArray (gVertexArrayObject w)) w;
          w = emit (glBindBuffer GL_ARRAY_BUFFER (gVertexBufferObject w)) w;
          w = emit (glDrawElements GL_TRIANGLES 6 GL_UNSIGNED_INT 0) w;
          w = emit (glUseProgram 0) w
      in w)"

lemma pending_emit [simp]: "pending (emit c w) = pending w"
  by (simp add: emit_def)

lemma pending_PreDraw [simp]: "pending (PreDraw w) = pending w"
  by (simp add: PreDraw_def Let_def)

lemma pending_Draw [simp]: "pending (Draw w) = pending w"
  by (simp add: Draw_def Let_def)

lemma Input_pending_less: "Input w = Inr w' \<Longrightarrow> length (pending w') < length (pending w)"
proof (induction w rule: Input.induct)
  case (1 w)
  show ?case
  proof (cases "pending w")
    case Nil
    with "1.prems" show ?thesis by (simp add: Input.simps [of w])
  next
    case (Cons p ps)
    show ?thesis
    proof (cases p)
      case None
      with Cons "1.prems" show ?thesis by (auto simp: Input.simps [of w])
    next
      case (Some e)
      let ?w1 = "emit (SDL_PollEvent (Some e)) (w\<lparr>pending := ps\<rparr>)"
      show ?thesis
      proof (cases "e = SDL_QUIT")
        case True
        with Cons Some "1.prems"
        have "Input ((emit (cout (''Goodbye!'' @ endl)) ?w1)\<lparr>gQuit := True\<rparr>) = Inr w'"
          by (simp add: Input.simps [of w] Let_def)
        from "1.IH"(1) [OF Cons Some refl True this] Cons show ?thesis by simp
      next
        case False
        with Cons Some "1.prems" have "Input ?w1 = Inr w'"
          by (simp add: Input.simps [of w] Let_def)
        from "1.IH"(2) [OF Cons Some refl False this] Cons show ?thesis by simp
      qed
    qed
  qed
qed

function MainLoop :: "world \<Rightarrow> world result" where
  "MainLoop w =
     (if \<not> gQuit w
      then (case Input w of
              Inl e \<Rightarrow> Inl e
            | Inr w \<Rightarrow>
               (let w = PreDraw w;
                    w = Draw w;
                    w = emit (SDL_GL_SwapWindow (gGraphicsApplicationWindow w)) w
                in MainLoop w))
      else Inr w)"
  by pat_completeness auto
termination
  by (relation "measure (\<lambda>w. length (pending w))") (auto dest: Input_pending_less)

declare MainLoop.simps [simp del]

definition CleanUp :: "world \<Rightarrow> world" where
  "CleanUp w =
     (let w = emit (SDL_DestroyWindow (gGraphicsApplicationWindow w)) w;
          w = emit SDL_Quit w
      in w)"

text \<open>
  \<^verbatim>\<open>main\<close>: the globals start with their initializers; \<open>ps\<close> are the answers of
  \<^verbatim>\<open>SDL_PollEvent\<close>. The result is the stop that ended the program early, or
  the value \<^verbatim>\<open>main\<close> returns, with the final globals and calls.
\<close>

definition main :: "env \<Rightarrow> SDL_Event option list \<Rightarrow> (int \<times> world) result" where
  "main env ps =
     (case InitializeProgram env (globals_start ps) of
        Inl e \<Rightarrow> Inl e
      | Inr w \<Rightarrow>
         (let w = VertexSpecification env w in
          case CreateGraphicsPipeline env w of
            Inl e \<Rightarrow> Inl e
          | Inr w \<Rightarrow>
             (case MainLoop w of
                Inl e \<Rightarrow> Inl e
              | Inr w \<Rightarrow> (let w = CleanUp w in Inr (0, w)))))"

section \<open>The calls of the setup and of the teardown, in closed form\<close>

text \<open>
  \<open>init_ok\<close>: none of the four checks of \<^verbatim>\<open>InitializeProgram\<close> fails.
\<close>

definition init_ok :: "env \<Rightarrow> bool" where
  "init_ok env \<longleftrightarrow>
     0 \<le> SDL_Init_ret env \<and> SDL_CreateWindow_ret env \<noteq> nullptr \<and>
     SDL_GL_CreateContext_ret env \<noteq> nullptr \<and> gladLoadGLLoader_ret env \<noteq> 0"

definition window_calls :: "world \<Rightarrow> call list" where
  "window_calls w =
     [SDL_Init SDL_INIT_VIDEO,
      SDL_GL_SetAttribute SDL_GL_CONTEXT_MAJOR_VERSION (Lit 4),
      SDL_GL_SetAttribute SDL_GL_CONTEXT_MINOR_VERSION (Lit 1),
      SDL_GL_SetAttribute SDL_GL_CONTEXT_PROFILE_MASK (Const SDL_GL_CONTEXT_PROFILE_CORE),
      SDL_GL_SetAttribute SDL_GL_DOUBLEBUFFER (Lit 1),
      SDL_GL_SetAttribute SDL_GL_DEPTH_SIZE (Lit 2),
      SDL_CreateWindow ''OpenGL Window'' 0 0 (gScreenWidth w) (gScreenHeight w) SDL_WINDOW_OPENGL]"

definition version_calls :: "env \<Rightarrow> call list" where
  "version_calls env =
     [glGetString GL_VENDOR,
      cout (''Vendor: '' @ glGetString_ret env GL_VENDOR @ endl),
      glGetString GL_RENDERER,
      cout (''Renderer: '' @ glGetString_ret env GL_RENDERER @ endl),
      glGetString GL_VERSION,
      cout (''Version: '' @ glGetString_ret env GL_VERSION @ endl),
      glGetString GL_SHADING_LANGUAGE_VERSION,
      cout (''Shading Language: '' @ glGetString_ret env GL_SHADING_LANGUAGE_VERSION @ endl)]"

lemma InitializeProgram_ok:
  assumes "init_ok env"
  shows "InitializeProgram env w =
     Inr (w\<lparr>gGraphicsApplicationWindow := SDL_CreateWindow_ret env,
            gOpenGLContext := SDL_GL_CreateContext_ret env,
            calls := calls w @ window_calls w
              @ [SDL_GL_CreateContext (SDL_CreateWindow_ret env), gladLoadGLLoader]
              @ version_calls env\<rparr>)"
  using assms
  by (simp add: init_ok_def InitializeProgram_def GetOpenGLVersionInfo_def Let_def emit_def
      window_calls_def version_calls_def)

lemma InitializeProgram_no_SDL:
  assumes "SDL_Init_ret env < 0"
  shows "InitializeProgram env w =
     Inl (Exit 1, w\<lparr>calls := calls w @
       [SDL_Init SDL_INIT_VIDEO, cout (''SDL2 could not initialize video subsystem'' @ endl)]\<rparr>)"
  using assms by (simp add: InitializeProgram_def Let_def emit_def)

lemma InitializeProgram_no_window:
  assumes "0 \<le> SDL_Init_ret env" and "SDL_CreateWindow_ret env = nullptr"
  shows "InitializeProgram env w =
     Inl (Exit 1, w\<lparr>gGraphicsApplicationWindow := nullptr,
                    calls := calls w @ window_calls w
                      @ [cout (''SDL Window was not able to be created'' @ endl)]\<rparr>)"
  using assms by (simp add: InitializeProgram_def Let_def emit_def window_calls_def)

lemma InitializeProgram_no_context:
  assumes "0 \<le> SDL_Init_ret env" and "SDL_CreateWindow_ret env \<noteq> nullptr"
    and "SDL_GL_CreateContext_ret env = nullptr"
  shows "InitializeProgram env w =
     Inl (Exit 1, w\<lparr>gGraphicsApplicationWindow := SDL_CreateWindow_ret env,
                    gOpenGLContext := nullptr,
                    calls := calls w @ window_calls w
                      @ [SDL_GL_CreateContext (SDL_CreateWindow_ret env),
                         cout (''OpenGL context could not be created'' @ endl)]\<rparr>)"
  using assms by (simp add: InitializeProgram_def Let_def emit_def window_calls_def)

lemma InitializeProgram_no_glad:
  assumes "0 \<le> SDL_Init_ret env" and "SDL_CreateWindow_ret env \<noteq> nullptr"
    and "SDL_GL_CreateContext_ret env \<noteq> nullptr" and "gladLoadGLLoader_ret env = 0"
  shows "InitializeProgram env w =
     Inl (Exit 1, w\<lparr>gGraphicsApplicationWindow := SDL_CreateWindow_ret env,
                    gOpenGLContext := SDL_GL_CreateContext_ret env,
                    calls := calls w @ window_calls w
                      @ [SDL_GL_CreateContext (SDL_CreateWindow_ret env), gladLoadGLLoader,
                         cout (''glad was not initialized'' @ endl)]\<rparr>)"
  using assms by (simp add: InitializeProgram_def Let_def emit_def window_calls_def)

definition upload_calls :: "env \<Rightarrow> call list" where
  "upload_calls env =
     [glGenVertexArrays 1,
      glBindVertexArray (glGenVertexArrays_ret env),
      glGenBuffers 1,
      glBindBuffer GL_ARRAY_BUFFER (glGenBuffers_ret env 0),
      glBufferData GL_ARRAY_BUFFER (length vertexData * sizeof_GLfloat) (Floats vertexData)
        GL_STATIC_DRAW,
      glGenBuffers 1,
      glBindBuffer GL_ELEMENT_ARRAY_BUFFER (glGenBuffers_ret env 1),
      glBufferData GL_ELEMENT_ARRAY_BUFFER (length indexBufferData * sizeof_GLuint)
        (UInts indexBufferData) GL_STATIC_DRAW,
      glEnableVertexAttribArray 0,
      glVertexAttribPointer 0 3 GL_FLOAT GL_FALSE (sizeof_GLfloat * 6) 0,
      glEnableVertexAttribArray 1,
      glVertexAttribPointer 1 3 GL_FLOAT GL_FALSE (sizeof_GLfloat * 6) (sizeof_GLfloat * 3),
      glBindVertexArray 0,
      glDisableVertexAttribArray 0,
      glDisableVertexAttribArray 1]"

lemma VertexSpecification_eq:
  "VertexSpecification env w =
     w\<lparr>gVertexArrayObject := glGenVertexArrays_ret env,
       gVertexBufferObject := glGenBuffers_ret env 0,
       gIndexBufferObject := glGenBuffers_ret env 1,
       calls := calls w @ upload_calls env\<rparr>"
  by (simp add: VertexSpecification_def Let_def emit_def upload_calls_def)

definition load_calls :: "env \<Rightarrow> string \<Rightarrow> call list" where
  "load_calls env filename =
     ifstream_open filename #
       (case file_contents env filename of None \<Rightarrow> [] | Some content \<Rightarrow> [ifstream_close filename])"

definition shader_source :: "env \<Rightarrow> string \<Rightarrow> string" where
  "shader_source env filename =
     (case file_contents env filename of None \<Rightarrow> [] | Some content \<Rightarrow> getline_loop content [])"

lemma LoadShaderAsString_eq:
  "LoadShaderAsString env filename w =
     (shader_source env filename, w\<lparr>calls := calls w @ load_calls env filename\<rparr>)"
  by (simp add: LoadShaderAsString_def Let_def emit_def load_calls_def shader_source_def
      split: option.split)

text \<open>
  \<open>compile_failed\<close>: the driver says that the shader of this type did not compile.
  \<open>compile_throws\<close>: it did not, and the driver gives a negative length for its log, so
  that \<^verbatim>\<open>CompileShader\<close> stops at \<^verbatim>\<open>new char[length]\<close>. \<open>error_text\<close>: the log as the
  output statement of \<^verbatim>\<open>CompileShader\<close> prints it.
\<close>

definition compile_failed :: "env \<Rightarrow> GLenum \<Rightarrow> bool" where
  "compile_failed env type \<longleftrightarrow>
     glGetShaderiv_ret env (glCreateShader_ret env type) GL_COMPILE_STATUS = GL_FALSE"

definition info_log_length :: "env \<Rightarrow> GLenum \<Rightarrow> int" where
  "info_log_length env type =
     glGetShaderiv_ret env (glCreateShader_ret env type) GL_INFO_LOG_LENGTH"

definition compile_throws :: "env \<Rightarrow> GLenum \<Rightarrow> bool" where
  "compile_throws env type \<longleftrightarrow> compile_failed env type \<and> info_log_length env type < 0"

definition error_text :: "env \<Rightarrow> GLenum \<Rightarrow> string" where
  "error_text env type =
     (if info_log_length env type = 0
      then c_str (empty_array_read env (glCreateShader_ret env type))
      else c_str (take (nat (info_log_length env type - 1))
                   (glGetShaderInfoLog_ret env (glCreateShader_ret env type))))"

lemma c_str_terminated [simp]: "c_str (s @ [CHR 0x00]) = c_str s"
  by (induction s) (simp_all add: c_str_def)

definition compile_calls :: "env \<Rightarrow> GLenum \<Rightarrow> string \<Rightarrow> call list" where
  "compile_calls env type source =
     (let so = glCreateShader_ret env type in
      [glCreateShader type, glShaderSource so (c_str source), glCompileShader so,
       glGetShaderiv so GL_COMPILE_STATUS]
      @ (if compile_failed env type
         then glGetShaderiv so GL_INFO_LOG_LENGTH #
              (if info_log_length env type < 0 then []
               else [glGetShaderInfoLog so (info_log_length env type),
                     cout ((if type = GL_VERTEX_SHADER
                            then ''ERROR: GL_VERTEX_SHADER compilation failed!''
                            else ''ERROR: GL_FRAGMENT_SHADER compilation failed!'')
                           @ endl @ error_text env type @ endl),
                     glDeleteShader so])
         else []))"

definition compile_value :: "env \<Rightarrow> GLenum \<Rightarrow> GLuint" where
  "compile_value env type = (if compile_failed env type then 0 else glCreateShader_ret env type)"

lemma CompileShader_eq:
  assumes "type = GL_VERTEX_SHADER \<or> type = GL_FRAGMENT_SHADER"
  shows "CompileShader env type source w =
     (if compile_throws env type
      then Inl (BadArrayNewLength, w\<lparr>calls := calls w @ compile_calls env type source\<rparr>)
      else Inr (compile_value env type, w\<lparr>calls := calls w @ compile_calls env type source\<rparr>))"
  using assms
  by (auto simp: CompileShader_def Let_def emit_def compile_calls_def compile_value_def
      compile_failed_def compile_throws_def info_log_length_def error_text_def)

lemma CompileShader_uninit:
  assumes "type \<noteq> GL_VERTEX_SHADER" and "type \<noteq> GL_FRAGMENT_SHADER"
  shows "CompileShader env type source w = Inl (UninitRead, w)"
  using assms by (simp add: CompileShader_def)

definition link_calls :: "GLuint \<Rightarrow> GLuint \<Rightarrow> GLuint \<Rightarrow> call list" where
  "link_calls programObject myVertexShader myFragmentShader =
     [glAttachShader programObject myVertexShader,
      glAttachShader programObject myFragmentShader,
      glLinkProgram programObject,
      glValidateProgram programObject,
      glDetachShader programObject myVertexShader,
      glDetachShader programObject myFragmentShader,
      glDeleteShader myVertexShader,
      glDeleteShader myFragmentShader]"

text \<open>
  \<open>pipeline_ok\<close>: neither call of \<^verbatim>\<open>CompileShader\<close> stops the program. \<open>program_calls\<close>
  and \<open>pipeline_calls\<close> are the calls of \<^verbatim>\<open>CreateShaderProgram\<close> and of
  \<^verbatim>\<open>CreateGraphicsPipeline\<close>, up to where the program stops if it does.
\<close>

definition pipeline_ok :: "env \<Rightarrow> bool" where
  "pipeline_ok env \<longleftrightarrow>
     \<not> compile_throws env GL_VERTEX_SHADER \<and> \<not> compile_throws env GL_FRAGMENT_SHADER"

definition program_calls :: "env \<Rightarrow> string \<Rightarrow> string \<Rightarrow> call list" where
  "program_calls env vs fs =
     glCreateProgram # compile_calls env GL_VERTEX_SHADER vs
     @ (if compile_throws env GL_VERTEX_SHADER then []
        else compile_calls env GL_FRAGMENT_SHADER fs
          @ (if compile_throws env GL_FRAGMENT_SHADER then []
             else link_calls (glCreateProgram_ret env) (compile_value env GL_VERTEX_SHADER)
                    (compile_value env GL_FRAGMENT_SHADER)))"

definition pipeline_calls :: "env \<Rightarrow> call list" where
  "pipeline_calls env =
     load_calls env ''./shaders/vert.glsl'' @ load_calls env ''./shaders/frag.glsl''
     @ program_calls env (shader_source env ''./shaders/vert.glsl'')
         (shader_source env ''./shaders/frag.glsl'')"

lemma CreateShaderProgram_eq:
  "CreateShaderProgram env vs fs w =
     (if pipeline_ok env
      then Inr (glCreateProgram_ret env, w\<lparr>calls := calls w @ program_calls env vs fs\<rparr>)
      else Inl (BadArrayNewLength, w\<lparr>calls := calls w @ program_calls env vs fs\<rparr>))"
  by (simp add: CreateShaderProgram_def CompileShader_eq Let_def emit_def link_calls_def
      pipeline_ok_def program_calls_def)

lemma CreateGraphicsPipeline_eq:
  "CreateGraphicsPipeline env w =
     (if pipeline_ok env
      then Inr (w\<lparr>gGraphicsPipelineShaderProgram := glCreateProgram_ret env,
                  calls := calls w @ pipeline_calls env\<rparr>)
      else Inl (BadArrayNewLength, w\<lparr>calls := calls w @ pipeline_calls env\<rparr>))"
  by (cases w)
    (simp add: CreateGraphicsPipeline_def LoadShaderAsString_eq CreateShaderProgram_eq
      pipeline_calls_def)

lemma CleanUp_eq:
  "CleanUp w =
     w\<lparr>calls := calls w @ [SDL_DestroyWindow (gGraphicsApplicationWindow w), SDL_Quit]\<rparr>"
  by (simp add: CleanUp_def Let_def emit_def)

section \<open>The calls of the render loop, in closed form\<close>

text \<open>
  The calls of one run of the loop of \<^verbatim>\<open>Input\<close> that takes the events \<open>evs\<close> from the
  queue, and the calls that \<^verbatim>\<open>PreDraw\<close>, \<^verbatim>\<open>Draw\<close> and the buffer swap make in one
  iteration of \<^verbatim>\<open>MainLoop\<close>.
\<close>

fun poll_calls :: "SDL_Event list \<Rightarrow> call list" where
  "poll_calls [] = []"
| "poll_calls (e # es) =
     SDL_PollEvent (Some e) # (if e = SDL_QUIT then [cout (''Goodbye!'' @ endl)] else [])
       @ poll_calls es"

definition frame_calls :: "world \<Rightarrow> call list" where
  "frame_calls w =
     [glDisable GL_DEPTH_TEST, glDisable GL_CULL_FACE,
      glViewport 0 0 (gScreenWidth w) (gScreenHeight w),
      glClearColor 0.03 0.05 0.27 1,
      glClear [GL_DEPTH_BUFFER_BIT, GL_COLOR_BUFFER_BIT],
      glUseProgram (gGraphicsPipelineShaderProgram w),
      glBindVertexArray (gVertexArrayObject w),
      glBindBuffer GL_ARRAY_BUFFER (gVertexBufferObject w),
      glDrawElements GL_TRIANGLES 6 GL_UNSIGNED_INT 0,
      glUseProgram 0,
      SDL_GL_SwapWindow (gGraphicsApplicationWindow w)]"

lemma frame_eq:
  "emit (SDL_GL_SwapWindow (gGraphicsApplicationWindow (Draw (PreDraw w)))) (Draw (PreDraw w)) =
     w\<lparr>calls := calls w @ frame_calls w\<rparr>"
  by (simp add: PreDraw_def Draw_def emit_def frame_calls_def Let_def)

lemma frame_calls_cong [simp]:
  "frame_calls (w\<lparr>gQuit := q\<rparr>) = frame_calls w"
  "frame_calls (w\<lparr>calls := cs\<rparr>) = frame_calls w"
  "frame_calls (w\<lparr>pending := ps\<rparr>) = frame_calls w"
  by (simp_all add: frame_calls_def)

lemma Input_drained:
  "pending w = map Some evs @ None # rest \<Longrightarrow>
   Input w = Inr (w\<lparr>gQuit := gQuit w \<or> SDL_QUIT \<in> set evs,
                     calls := calls w @ poll_calls evs @ [SDL_PollEvent None],
                     pending := rest\<rparr>)"
proof (induction evs arbitrary: w)
  case Nil
  then show ?case by (simp add: Input.simps [of w] emit_def)
next
  case (Cons e es)
  let ?w1 = "emit (SDL_PollEvent (Some e)) (w\<lparr>pending := map Some es @ None # rest\<rparr>)"
  show ?case
  proof (cases "e = SDL_QUIT")
    case True
    let ?w2 = "(emit (cout (''Goodbye!'' @ endl)) ?w1)\<lparr>gQuit := True\<rparr>"
    have p: "pending ?w2 = map Some es @ None # rest" by simp
    from Cons.prems True have "Input w = Input ?w2"
      by (simp add: Input.simps [of w] Let_def)
    with Cons.IH [OF p] True show ?thesis by (simp add: emit_def)
  next
    case False
    have p: "pending ?w1 = map Some es @ None # rest" by simp
    from Cons.prems False have "Input w = Input ?w1"
      by (simp add: Input.simps [of w] Let_def)
    with Cons.IH [OF p] False show ?thesis by (simp add: emit_def)
  qed
qed

lemma Input_starved:
  "pending w = map Some evs \<Longrightarrow>
   Input w = Inl (Pending, w\<lparr>gQuit := gQuit w \<or> SDL_QUIT \<in> set evs,
                              calls := calls w @ poll_calls evs,
                              pending := []\<rparr>)"
proof (induction evs arbitrary: w)
  case Nil
  then have "w\<lparr>gQuit := gQuit w, calls := calls w, pending := []\<rparr> = w" by simp
  with Nil show ?case by (simp add: Input.simps [of w])
next
  case (Cons e es)
  let ?w1 = "emit (SDL_PollEvent (Some e)) (w\<lparr>pending := map Some es\<rparr>)"
  show ?case
  proof (cases "e = SDL_QUIT")
    case True
    let ?w2 = "(emit (cout (''Goodbye!'' @ endl)) ?w1)\<lparr>gQuit := True\<rparr>"
    have p: "pending ?w2 = map Some es" by simp
    from Cons.prems True have "Input w = Input ?w2"
      by (simp add: Input.simps [of w] Let_def)
    with Cons.IH [OF p] True show ?thesis by (simp add: emit_def)
  next
    case False
    have p: "pending ?w1 = map Some es" by simp
    from Cons.prems False have "Input w = Input ?w1"
      by (simp add: Input.simps [of w] Let_def)
    with Cons.IH [OF p] False show ?thesis by (simp add: emit_def)
  qed
qed

lemma pending_split:
  "(\<exists>evs. ps = map Some evs) \<or> (\<exists>evs rest. ps = map Some evs @ None # rest)"
proof (induction ps)
  case Nil
  then show ?case by simp
next
  case (Cons p ps)
  show ?case
  proof (cases p)
    case None
    have "p # ps = map Some [] @ None # ps" using None by simp
    then show ?thesis by (intro disjI2 exI)
  next
    case (Some e)
    from Cons.IH show ?thesis
    proof
      assume "\<exists>evs. ps = map Some evs"
      then obtain evs where "ps = map Some evs" ..
      with Some have "p # ps = map Some (e # evs)" by simp
      then show ?thesis by (intro disjI1 exI)
    next
      assume "\<exists>evs rest. ps = map Some evs @ None # rest"
      then obtain evs rest where "ps = map Some evs @ None # rest" by blast
      with Some have "p # ps = map Some (e # evs) @ None # rest" by simp
      then show ?thesis by (intro disjI2 exI)
    qed
  qed
qed

lemma MainLoop_quit [simp]: "gQuit w \<Longrightarrow> MainLoop w = Inr w"
  by (simp add: MainLoop.simps [of w])

lemma MainLoop_starved:
  assumes "\<not> gQuit w" and "pending w = map Some evs"
  shows "MainLoop w = Inl (Pending, w\<lparr>gQuit := SDL_QUIT \<in> set evs,
                                       calls := calls w @ poll_calls evs,
                                       pending := []\<rparr>)"
proof -
  have "MainLoop w = Inl (Pending, w\<lparr>gQuit := gQuit w \<or> SDL_QUIT \<in> set evs,
                                       calls := calls w @ poll_calls evs,
                                       pending := []\<rparr>)"
    using assms by (simp add: MainLoop.simps [of w] Input_starved)
  with assms(1) show ?thesis by simp
qed

lemma MainLoop_step:
  assumes "\<not> gQuit w" and "pending w = map Some evs @ None # rest"
  shows "MainLoop w =
     MainLoop (w\<lparr>gQuit := SDL_QUIT \<in> set evs,
                 calls := calls w @ poll_calls evs @ [SDL_PollEvent None] @ frame_calls w,
                 pending := rest\<rparr>)"
proof -
  let ?w1 = "w\<lparr>gQuit := gQuit w \<or> SDL_QUIT \<in> set evs,
               calls := calls w @ poll_calls evs @ [SDL_PollEvent None],
               pending := rest\<rparr>"
  have "MainLoop w = MainLoop (?w1\<lparr>calls := calls ?w1 @ frame_calls ?w1\<rparr>)"
    using assms by (simp add: MainLoop.simps [of w] Input_drained Let_def frame_eq)
  also have "?w1\<lparr>calls := calls ?w1 @ frame_calls ?w1\<rparr> =
      w\<lparr>gQuit := SDL_QUIT \<in> set evs,
        calls := calls w @ poll_calls evs @ [SDL_PollEvent None] @ frame_calls w,
        pending := rest\<rparr>"
    using assms(1) by (cases w) (simp add: frame_calls_def)
  finally show ?thesis .
qed

lemma MainLoop_last_frame:
  assumes "\<not> gQuit w" and "pending w = map Some evs @ None # rest" and "SDL_QUIT \<in> set evs"
  shows "MainLoop w =
     Inr (w\<lparr>gQuit := True,
            calls := calls w @ poll_calls evs @ [SDL_PollEvent None] @ frame_calls w,
            pending := rest\<rparr>)"
  using assms by (simp add: MainLoop_step)

lemma MainLoop_next_frame:
  assumes "\<not> gQuit w" and "pending w = map Some evs @ None # rest" and "SDL_QUIT \<notin> set evs"
  shows "MainLoop w =
     MainLoop (w\<lparr>calls := calls w @ poll_calls evs @ [SDL_PollEvent None] @ frame_calls w,
                 pending := rest\<rparr>)"
proof -
  let ?cs = "calls w @ poll_calls evs @ [SDL_PollEvent None] @ frame_calls w"
  have "w\<lparr>gQuit := SDL_QUIT \<in> set evs, calls := ?cs, pending := rest\<rparr> =
      w\<lparr>calls := ?cs, pending := rest\<rparr>"
    using assms(1,3) by (cases w) simp
  with MainLoop_step [OF assms(1,2)] show ?thesis by simp
qed

lemma MainLoop_frames_induct [consumes 1, case_names starved last_frame next_frame]:
  assumes "\<not> gQuit w"
    and "\<And>w evs. \<not> gQuit w \<Longrightarrow> pending w = map Some evs \<Longrightarrow> P w"
    and "\<And>w evs rest. \<not> gQuit w \<Longrightarrow> pending w = map Some evs @ None # rest \<Longrightarrow>
           SDL_QUIT \<in> set evs \<Longrightarrow> P w"
    and "\<And>w evs rest. \<not> gQuit w \<Longrightarrow> pending w = map Some evs @ None # rest \<Longrightarrow>
           SDL_QUIT \<notin> set evs \<Longrightarrow>
           P (w\<lparr>calls := calls w @ poll_calls evs @ [SDL_PollEvent None] @ frame_calls w,
                pending := rest\<rparr>) \<Longrightarrow> P w"
  shows "P w"
  using assms(1)
proof (induction "length (pending w)" arbitrary: w rule: less_induct)
  case less
  from pending_split [of "pending w"] show ?case
  proof
    assume "\<exists>evs. pending w = map Some evs"
    then obtain evs where "pending w = map Some evs" ..
    with less.prems show ?thesis by (rule assms(2))
  next
    assume "\<exists>evs rest. pending w = map Some evs @ None # rest"
    then obtain evs rest where p: "pending w = map Some evs @ None # rest" by blast
    show ?thesis
    proof (cases "SDL_QUIT \<in> set evs")
      case True
      with less.prems p show ?thesis by (rule assms(3))
    next
      case False
      let ?w = "w\<lparr>calls := calls w @ poll_calls evs @ [SDL_PollEvent None] @ frame_calls w,
                  pending := rest\<rparr>"
      have "length (pending ?w) < length (pending w)" using p by simp
      moreover have "\<not> gQuit ?w" using less.prems by simp
      ultimately have "P ?w" by (rule less.hyps)
      with less.prems p False show ?thesis by (rule assms(4))
    qed
  qed
qed

text \<open>
  \<open>loop_ends ps\<close>: among the answers \<open>ps\<close> of \<^verbatim>\<open>SDL_PollEvent\<close> there is an
  \<^verbatim>\<open>SDL_QUIT\<close> event, and after it the queue is found empty.
\<close>

definition loop_ends :: "SDL_Event option list \<Rightarrow> bool" where
  "loop_ends ps \<longleftrightarrow> None \<in> set (dropWhile (\<lambda>p. p \<noteq> Some SDL_QUIT) ps)"

lemma loop_ends_starved: "\<not> loop_ends (map Some evs)"
  by (auto simp: loop_ends_def dest: set_dropWhileD)

lemma loop_ends_last: "SDL_QUIT \<in> set evs \<Longrightarrow> loop_ends (map Some evs @ None # rest)"
  by (simp add: loop_ends_def dropWhile_append1 [where x = "Some SDL_QUIT"])

lemma loop_ends_next:
  "SDL_QUIT \<notin> set evs \<Longrightarrow> loop_ends (map Some evs @ None # rest) = loop_ends rest"
proof -
  assume "SDL_QUIT \<notin> set evs"
  then have "dropWhile (\<lambda>p. p \<noteq> Some SDL_QUIT) (map Some evs @ None # rest) =
      dropWhile (\<lambda>p. p \<noteq> Some SDL_QUIT) (None # rest)"
    by (intro dropWhile_append2) auto
  then show ?thesis by (simp add: loop_ends_def)
qed

lemma MainLoop_returns_iff:
  assumes "\<not> gQuit w"
  shows "(\<exists>w'. MainLoop w = Inr w') \<longleftrightarrow> loop_ends (pending w)"
  using assms
proof (induction w rule: MainLoop_frames_induct)
  case (starved w evs)
  then show ?case by (simp add: MainLoop_starved loop_ends_starved)
next
  case (last_frame w evs rest)
  then show ?case by (simp add: MainLoop_last_frame loop_ends_last)
next
  case (next_frame w evs rest)
  then show ?case by (simp add: MainLoop_next_frame loop_ends_next)
qed

lemma MainLoop_stops_Pending:
  assumes "\<not> gQuit w"
  shows "MainLoop w = Inl (s, w') \<Longrightarrow> s = Pending"
  using assms
proof (induction w rule: MainLoop_frames_induct)
  case (starved w evs)
  then show ?case by (simp add: MainLoop_starved)
next
  case (last_frame w evs rest)
  then show ?case by (simp add: MainLoop_last_frame)
next
  case (next_frame w evs rest)
  then show ?case by (simp add: MainLoop_next_frame)
qed

text \<open>The world a function leaves behind, whether it returns or stops the program.\<close>

definition world_of :: "world result \<Rightarrow> world" where
  "world_of r = (case r of Inl (s, w) \<Rightarrow> w | Inr w \<Rightarrow> w)"

lemma world_of_simps [simp]: "world_of (Inl (s, w)) = w" "world_of (Inr w) = w"
  by (simp_all add: world_of_def)

text \<open>
  \<open>loop_call w c\<close>: \<open>c\<close> is a call that an iteration of the loop makes when the globals
  are those of \<open>w\<close>.
\<close>

fun is_poll :: "call \<Rightarrow> bool" where
  "is_poll (SDL_PollEvent p) = True"
| "is_poll c = False"

definition loop_call :: "world \<Rightarrow> call \<Rightarrow> bool" where
  "loop_call w c \<longleftrightarrow> is_poll c \<or> c = cout (''Goodbye!'' @ endl) \<or> c \<in> set (frame_calls w)"

lemma loop_call_cong [simp]:
  "loop_call (w\<lparr>gQuit := q\<rparr>) = loop_call w"
  "loop_call (w\<lparr>calls := cs\<rparr>) = loop_call w"
  "loop_call (w\<lparr>pending := ps\<rparr>) = loop_call w"
  by (simp_all add: loop_call_def fun_eq_iff)

lemma loop_call_poll_calls: "list_all (loop_call w) (poll_calls evs)"
  by (induction evs) (simp_all add: loop_call_def)

lemma loop_call_frame_calls: "list_all (loop_call w) (frame_calls w)"
  by (simp add: list_all_iff loop_call_def)

lemma MainLoop_effect:
  assumes "\<not> gQuit w"
  shows "\<exists>q t rest. world_of (MainLoop w) = w\<lparr>gQuit := q, calls := calls w @ t, pending := rest\<rparr>
           \<and> list_all (loop_call w) t"
  using assms
proof (induction w rule: MainLoop_frames_induct)
  case (starved w evs)
  have "world_of (MainLoop w) =
      w\<lparr>gQuit := SDL_QUIT \<in> set evs, calls := calls w @ poll_calls evs, pending := []\<rparr>"
    using starved by (simp add: MainLoop_starved)
  then show ?case using loop_call_poll_calls by blast
next
  case (last_frame w evs rest)
  let ?t = "poll_calls evs @ [SDL_PollEvent None] @ frame_calls w"
  have "world_of (MainLoop w) = w\<lparr>gQuit := True, calls := calls w @ ?t, pending := rest\<rparr>"
    using last_frame by (simp add: MainLoop_last_frame)
  moreover have "list_all (loop_call w) ?t"
    using loop_call_poll_calls [of w evs] loop_call_frame_calls [of w]
    by (simp add: loop_call_def)
  ultimately show ?case by blast
next
  case (next_frame w evs rest)
  let ?t = "poll_calls evs @ [SDL_PollEvent None] @ frame_calls w"
  let ?w = "w\<lparr>calls := calls w @ ?t, pending := rest\<rparr>"
  from next_frame.IH obtain q t' rest' where
    w': "world_of (MainLoop ?w) = ?w\<lparr>gQuit := q, calls := calls ?w @ t', pending := rest'\<rparr>"
    and t': "list_all (loop_call ?w) t'"
    by blast
  have "MainLoop w = MainLoop ?w"
    using next_frame by (simp add: MainLoop_next_frame)
  with w' have "world_of (MainLoop w) =
      w\<lparr>gQuit := q, calls := calls w @ (?t @ t'), pending := rest'\<rparr>"
    by (cases w) simp
  moreover have "list_all (loop_call w) (?t @ t')"
    using loop_call_poll_calls [of w evs] loop_call_frame_calls [of w] t'
    by (simp add: loop_call_def)
  ultimately show ?case by blast
qed


text \<open>
  The draw calls of a list of calls, and the part of a list of calls that starts where
  \<^verbatim>\<open>SDL_PollEvent\<close> first hands out an \<^verbatim>\<open>SDL_QUIT\<close> event.
\<close>

fun is_draw :: "call \<Rightarrow> bool" where
  "is_draw (glDrawElements mode n type offset) = True"
| "is_draw c = False"

definition frames_drawn :: "call list \<Rightarrow> nat" where
  "frames_drawn cs = length (filter is_draw cs)"

definition after_quit :: "call list \<Rightarrow> call list" where
  "after_quit cs = dropWhile (\<lambda>c. c \<noteq> SDL_PollEvent (Some SDL_QUIT)) cs"

lemma poll_in_poll_calls [simp]: "SDL_PollEvent (Some e) \<in> set (poll_calls evs) \<longleftrightarrow> e \<in> set evs"
  by (induction evs) auto

lemma no_draw_in_poll_calls: "c \<in> set (poll_calls evs) \<Longrightarrow> \<not> is_draw c"
  by (induction evs) (auto split: if_splits)

lemma no_poll_in_frame_calls [simp]: "SDL_PollEvent p \<notin> set (frame_calls w)"
  by (simp add: frame_calls_def)

lemma one_draw_in_frame_calls [simp]: "length (filter is_draw (frame_calls w)) = 1"
  by (simp add: frame_calls_def)

lemma frames_drawn_after_quit_last:
  assumes "SDL_QUIT \<in> set evs"
  shows "frames_drawn (after_quit (poll_calls evs @ [SDL_PollEvent None] @ frame_calls w)) = 1"
proof -
  let ?P = "\<lambda>c. c \<noteq> SDL_PollEvent (Some SDL_QUIT)"
  have "dropWhile ?P (poll_calls evs @ [SDL_PollEvent None] @ frame_calls w) =
      dropWhile ?P (poll_calls evs) @ [SDL_PollEvent None] @ frame_calls w"
    using assms by (intro dropWhile_append1 [where x = "SDL_PollEvent (Some SDL_QUIT)"]) simp_all
  moreover have "filter is_draw (dropWhile ?P (poll_calls evs)) = []"
  proof -
    have "set (dropWhile ?P (poll_calls evs)) \<subseteq> set (poll_calls evs)"
      by (auto dest: set_dropWhileD)
    then show ?thesis by (auto simp: filter_empty_conv dest: no_draw_in_poll_calls)
  qed
  ultimately show ?thesis by (simp add: frames_drawn_def after_quit_def)
qed

lemma after_quit_next:
  assumes "SDL_QUIT \<notin> set evs"
  shows "after_quit ((poll_calls evs @ [SDL_PollEvent None] @ frame_calls w) @ t) = after_quit t"
  unfolding after_quit_def using assms by (intro dropWhile_append2) auto

lemma MainLoop_returns_effect:
  assumes "\<not> gQuit w"
  shows "MainLoop w = Inr w' \<Longrightarrow>
    \<exists>t rest. w' = w\<lparr>gQuit := True, calls := calls w @ t, pending := rest\<rparr>
       \<and> SDL_PollEvent (Some SDL_QUIT) \<in> set t \<and> frames_drawn (after_quit t) = 1"
  using assms
proof (induction w rule: MainLoop_frames_induct)
  case (starved w evs)
  then show ?case by (simp add: MainLoop_starved)
next
  case (last_frame w evs rest)
  let ?t = "poll_calls evs @ [SDL_PollEvent None] @ frame_calls w"
  have "w' = w\<lparr>gQuit := True, calls := calls w @ ?t, pending := rest\<rparr>"
    using last_frame by (simp add: MainLoop_last_frame)
  moreover have "SDL_PollEvent (Some SDL_QUIT) \<in> set ?t"
    using last_frame by simp
  moreover have "frames_drawn (after_quit ?t) = 1"
    using last_frame by (simp only: frames_drawn_after_quit_last)
  ultimately show ?case by blast
next
  case (next_frame w evs rest)
  let ?t = "poll_calls evs @ [SDL_PollEvent None] @ frame_calls w"
  let ?w = "w\<lparr>calls := calls w @ ?t, pending := rest\<rparr>"
  have "MainLoop ?w = Inr w'"
    using next_frame by (simp add: MainLoop_next_frame)
  with next_frame.IH obtain t' rest' where
    w': "w' = ?w\<lparr>gQuit := True, calls := calls ?w @ t', pending := rest'\<rparr>"
    and q: "SDL_PollEvent (Some SDL_QUIT) \<in> set t'"
    and d: "frames_drawn (after_quit t') = 1"
    by blast
  from w' have "w' = w\<lparr>gQuit := True, calls := calls w @ (?t @ t'), pending := rest'\<rparr>"
    by (cases w) simp
  moreover have "SDL_PollEvent (Some SDL_QUIT) \<in> set (?t @ t')"
    using q by simp
  moreover have "frames_drawn (after_quit (?t @ t')) = 1"
    using d after_quit_next [OF next_frame(3), of w t'] by simp
  ultimately show ?case by blast
qed

section \<open>The five phases of a run\<close>

text \<open>
  The phases of the specification. A call belongs to the phase whose function of
  \<^verbatim>\<open>main.cpp\<close> makes it; console output and the two binding calls are made in more
  than one phase and belong to none. \<open>phases cs\<close> lists the phases of \<open>cs\<close> in the order in
  which the calls enter them: a phase that is entered twice is listed twice.
\<close>

datatype phase = Initialization | BufferUpload | ShaderCompilation | RenderLoop | Teardown

fun phase_of :: "call \<Rightarrow> phase option" where
  "phase_of (SDL_Init f) = Some Initialization"
| "phase_of (SDL_GL_SetAttribute a v) = Some Initialization"
| "phase_of (SDL_CreateWindow title x y width height f) = Some Initialization"
| "phase_of (SDL_GL_CreateContext window) = Some Initialization"
| "phase_of gladLoadGLLoader = Some Initialization"
| "phase_of (glGetString name) = Some Initialization"
| "phase_of (glGenVertexArrays n) = Some BufferUpload"
| "phase_of (glGenBuffers n) = Some BufferUpload"
| "phase_of (glBufferData target size' b usage) = Some BufferUpload"
| "phase_of (glEnableVertexAttribArray i) = Some BufferUpload"
| "phase_of (glVertexAttribPointer i n type normalized stride offset) = Some BufferUpload"
| "phase_of (glDisableVertexAttribArray i) = Some BufferUpload"
| "phase_of (ifstream_open filename) = Some ShaderCompilation"
| "phase_of (ifstream_close filename) = Some ShaderCompilation"
| "phase_of glCreateProgram = Some ShaderCompilation"
| "phase_of (glCreateShader type) = Some ShaderCompilation"
| "phase_of (glShaderSource so source) = Some ShaderCompilation"
| "phase_of (glCompileShader so) = Some ShaderCompilation"
| "phase_of (glGetShaderiv so pname) = Some ShaderCompilation"
| "phase_of (glGetShaderInfoLog so len) = Some ShaderCompilation"
| "phase_of (glDeleteShader so) = Some ShaderCompilation"
| "phase_of (glAttachShader po so) = Some ShaderCompilation"
| "phase_of (glLinkProgram po) = Some ShaderCompilation"
| "phase_of (glValidateProgram po) = Some ShaderCompilation"
| "phase_of (glDetachShader po so) = Some ShaderCompilation"
| "phase_of (SDL_PollEvent p) = Some RenderLoop"
| "phase_of (glDisable cap) = Some RenderLoop"
| "phase_of (glViewport x y width height) = Some RenderLoop"
| "phase_of (glClearColor r g b a) = Some RenderLoop"
| "phase_of (glClear bits) = Some RenderLoop"
| "phase_of (glUseProgram po) = Some RenderLoop"
| "phase_of (glDrawElements mode n type offset) = Some RenderLoop"
| "phase_of (SDL_GL_SwapWindow window) = Some RenderLoop"
| "phase_of (SDL_DestroyWindow window) = Some Teardown"
| "phase_of SDL_Quit = Some Teardown"
| "phase_of (cout text') = None"
| "phase_of (glBindVertexArray vao) = None"
| "phase_of (glBindBuffer target b) = None"



text \<open>\<open>block p t\<close>: the calls \<open>t\<close> enter the phase \<open>p\<close> and no other.\<close>

definition block :: "phase \<Rightarrow> call list \<Rightarrow> bool" where
  "block p t \<longleftrightarrow>
     (\<forall>c \<in> set t. phase_of c = None \<or> phase_of c = Some p) \<and> (\<exists>c \<in> set t. phase_of c = Some p)"





lemma block_init:
  "block Initialization
     (window_calls w @ [SDL_GL_CreateContext x, gladLoadGLLoader] @ version_calls env)"
  by (simp add: block_def window_calls_def version_calls_def)

lemma block_upload: "block BufferUpload (upload_calls env)"
  by (simp add: block_def upload_calls_def)

lemma phase_load_calls:
  "c \<in> set (load_calls env filename) \<Longrightarrow> phase_of c = Some ShaderCompilation"
  by (auto simp: load_calls_def split: option.splits)

lemma phase_compile_calls:
  "c \<in> set (compile_calls env type source) \<Longrightarrow>
   phase_of c = None \<or> phase_of c = Some ShaderCompilation"
  by (auto simp: compile_calls_def Let_def split: if_splits)

lemma phase_link_calls: "c \<in> set (link_calls po vs fs) \<Longrightarrow> phase_of c = Some ShaderCompilation"
  by (auto simp: link_calls_def)

lemma block_pipeline: "block ShaderCompilation (pipeline_calls env)"
proof -
  have "\<forall>c \<in> set (pipeline_calls env). phase_of c = None \<or> phase_of c = Some ShaderCompilation"
    by (auto simp: pipeline_calls_def program_calls_def split: if_splits
        dest: phase_load_calls phase_compile_calls phase_link_calls)
  moreover have "glCreateProgram \<in> set (pipeline_calls env)"
    by (simp add: pipeline_calls_def program_calls_def)
  ultimately show ?thesis
    by (auto simp: block_def intro: bexI [where x = glCreateProgram])
qed


lemma loop_call_phase: "loop_call w c \<Longrightarrow> phase_of c = None \<or> phase_of c = Some RenderLoop"
  by (cases c) (auto simp: loop_call_def frame_calls_def)


section \<open>A run of \<^verbatim>\<open>main\<close>, in closed form\<close>

text \<open>
  The calls of the three setup functions when no check of \<^verbatim>\<open>InitializeProgram\<close>
  fails, and the world in which \<^verbatim>\<open>MainLoop\<close> then starts if \<^verbatim>\<open>CompileShader\<close> has
  not stopped the program.
\<close>

definition setup_calls :: "env \<Rightarrow> call list" where
  "setup_calls env =
     window_calls (globals_start [])
     @ [SDL_GL_CreateContext (SDL_CreateWindow_ret env), gladLoadGLLoader]
     @ version_calls env @ upload_calls env @ pipeline_calls env"

definition setup_world :: "env \<Rightarrow> SDL_Event option list \<Rightarrow> world" where
  "setup_world env ps =
     \<lparr>gScreenWidth = 640, gScreenHeight = 480,
      gGraphicsApplicationWindow = SDL_CreateWindow_ret env,
      gOpenGLContext = SDL_GL_CreateContext_ret env,
      gQuit = False,
      gGraphicsPipelineShaderProgram = glCreateProgram_ret env,
      gVertexArrayObject = glGenVertexArrays_ret env,
      gVertexBufferObject = glGenBuffers_ret env 0,
      gIndexBufferObject = glGenBuffers_ret env 1,
      calls = setup_calls env, pending = ps\<rparr>"

lemma setup_world_simps [simp]:
  "gQuit (setup_world env ps) = False"
  "pending (setup_world env ps) = ps"
  "calls (setup_world env ps) = setup_calls env"
  "gGraphicsApplicationWindow (setup_world env ps) = SDL_CreateWindow_ret env"
  "gGraphicsPipelineShaderProgram (setup_world env ps) = glCreateProgram_ret env"
  by (simp_all add: setup_world_def)

lemma setup_eq:
  "CreateGraphicsPipeline env
      (VertexSpecification env
        ((globals_start ps)
           \<lparr>gGraphicsApplicationWindow := SDL_CreateWindow_ret env,
            gOpenGLContext := SDL_GL_CreateContext_ret env,
            calls := calls (globals_start ps) @ window_calls (globals_start ps)
              @ [SDL_GL_CreateContext (SDL_CreateWindow_ret env), gladLoadGLLoader]
              @ version_calls env\<rparr>)) =
     (if pipeline_ok env then Inr (setup_world env ps)
      else Inl (BadArrayNewLength, (setup_world env ps)\<lparr>gGraphicsPipelineShaderProgram := 0\<rparr>))"
  by (simp add: CreateGraphicsPipeline_eq VertexSpecification_eq setup_world_def
      setup_calls_def globals_start_def window_calls_def)

lemma main_after_setup:
  assumes "init_ok env" and "pipeline_ok env"
  shows "main env ps =
     (case MainLoop (setup_world env ps) of
        Inl e \<Rightarrow> Inl e
      | Inr w \<Rightarrow> Inr (0, CleanUp w))"
  using assms setup_eq [of env ps]
  by (simp add: main_def InitializeProgram_ok Let_def split: sum.split)

lemma main_pipeline_throws:
  assumes "init_ok env" and "\<not> pipeline_ok env"
  shows "main env ps =
     Inl (BadArrayNewLength, (setup_world env ps)\<lparr>gGraphicsPipelineShaderProgram := 0\<rparr>)"
  using assms setup_eq [of env ps]
  by (simp add: main_def InitializeProgram_ok Let_def)

definition main_world :: "(int \<times> world) result \<Rightarrow> world" where
  "main_world r = (case r of Inl (s, w) \<Rightarrow> w | Inr (n, w) \<Rightarrow> w)"

lemma main_world_simps [simp]: "main_world (Inl (s, w)) = w" "main_world (Inr (n, w)) = w"
  by (simp_all add: main_world_def)

lemma InitializeProgram_fails:
  "\<not> init_ok env \<Longrightarrow> \<exists>w'. InitializeProgram env w = Inl (Exit 1, w')"
  by (auto simp: init_ok_def InitializeProgram_def Let_def)

lemma main_returns_iff:
  "(\<exists>r w. main env ps = Inr (r, w)) \<longleftrightarrow> init_ok env \<and> pipeline_ok env \<and> loop_ends ps"
proof (cases "init_ok env")
  case True
  show ?thesis
  proof (cases "pipeline_ok env")
    case ok: True
    have "(\<exists>w. MainLoop (setup_world env ps) = Inr w) \<longleftrightarrow> loop_ends ps"
      using MainLoop_returns_iff [of "setup_world env ps"] by simp
    with True ok show ?thesis
      by (auto simp: main_after_setup split: sum.splits)
  next
    case False
    with True show ?thesis by (simp add: main_pipeline_throws)
  qed
next
  case False
  then have "\<exists>e. main env ps = Inl e"
    using InitializeProgram_fails [of env "globals_start ps"] by (auto simp: main_def)
  with False show ?thesis by auto
qed

lemma main_returns:
  assumes "init_ok env" and "pipeline_ok env" and "loop_ends ps"
  shows "\<exists>t rest. main env ps =
      Inr (0, (setup_world env ps)
                \<lparr>gQuit := True,
                 calls := setup_calls env @ t
                   @ [SDL_DestroyWindow (SDL_CreateWindow_ret env), SDL_Quit],
                 pending := rest\<rparr>)
      \<and> list_all (loop_call (setup_world env ps)) t
      \<and> SDL_PollEvent (Some SDL_QUIT) \<in> set t
      \<and> frames_drawn (after_quit t) = 1"
proof -
  let ?w = "setup_world env ps"
  from assms(3) obtain w' where ret: "MainLoop ?w = Inr w'"
    using MainLoop_returns_iff [of ?w] by auto
  then obtain t rest where w': "w' = ?w\<lparr>gQuit := True, calls := calls ?w @ t, pending := rest\<rparr>"
    and q: "SDL_PollEvent (Some SDL_QUIT) \<in> set t" and d: "frames_drawn (after_quit t) = 1"
    using MainLoop_returns_effect [of ?w w'] by auto
  from MainLoop_effect [of ?w] obtain q' t' rest' where
    e: "world_of (MainLoop ?w) = ?w\<lparr>gQuit := q', calls := calls ?w @ t', pending := rest'\<rparr>"
    and l: "list_all (loop_call ?w) t'"
    by auto
  have "calls w' = calls ?w @ t" using w' by simp
  moreover have "calls w' = calls ?w @ t'" using e ret by simp
  ultimately have "t = t'" by simp
  then have "list_all (loop_call ?w) t" using l by simp
  moreover have "main env ps = Inr (0, ?w\<lparr>gQuit := True,
      calls := setup_calls env @ t @ [SDL_DestroyWindow (SDL_CreateWindow_ret env), SDL_Quit],
      pending := rest\<rparr>)"
    using assms(1,2) ret w' by (simp add: main_after_setup CleanUp_eq setup_world_def)
  ultimately show ?thesis using q d by blast
qed

section \<open>Properties\<close>

subsection \<open>Reading a shader file\<close>

text \<open>
  The lines of a file, as a text editor counts them: the pieces between newline
  characters, where a newline at the very end of the file starts no further line.
\<close>

fun file_lines :: "string \<Rightarrow> string list" where
  "file_lines [] = []"
| "file_lines (c # cs) =
     (if c = CHR 0x0A then [] # file_lines cs
      else (case file_lines cs of [] \<Rightarrow> [[c]] | l # ls \<Rightarrow> (c # l) # ls))"

lemma file_lines_eq_Nil [simp]: "file_lines s = [] \<longleftrightarrow> s = []"
  by (cases s) (auto split: list.splits)

lemma file_lines_no_newline: "list_all (\<lambda>line. CHR 0x0A \<notin> set line) (file_lines s)"
  by (induction s) (auto split: list.splits)

lemma concat_file_lines:
  "concat (map (\<lambda>line. line @ [CHR 0x0A]) (file_lines s)) =
     (if s = [] \<or> last s = CHR 0x0A then s else s @ [CHR 0x0A])"
  by (induction s) (auto split: list.splits)

lemma file_lines_unfold:
  "s \<noteq> [] \<Longrightarrow>
   file_lines s =
     takeWhile (\<lambda>c. c \<noteq> CHR 0x0A) s # file_lines (drop 1 (dropWhile (\<lambda>c. c \<noteq> CHR 0x0A) s))"
proof (induction s)
  case Nil
  then show ?case by simp
next
  case (Cons c cs)
  show ?case
  proof (cases "c = CHR 0x0A")
    case True
    then show ?thesis by simp
  next
    case False
    show ?thesis
    proof (cases "cs = []")
      case True
      with False show ?thesis by simp
    next
      case nonempty: False
      from Cons.IH [OF nonempty] False show ?thesis by simp
    qed
  qed
qed

lemma getline_loop_acc: "getline_loop s acc = acc @ getline_loop s []"
proof (induction "length s" arbitrary: s acc rule: less_induct)
  case less
  show ?case
  proof (cases "getline s")
    case None
    then show ?thesis
      by (simp add: getline_loop.simps [of s acc] getline_loop.simps [of s "[]"])
  next
    case (Some p)
    obtain line s' where p: "p = (line, s')" by (cases p)
    with Some have shorter: "length s' < length s"
      by (simp add: getline_rest_shorter)
    have "getline_loop s acc = getline_loop s' (acc @ line @ [CHR 0x0A])"
      using Some p by (simp add: getline_loop.simps [of s acc])
    also have "\<dots> = (acc @ line @ [CHR 0x0A]) @ getline_loop s' []"
      by (rule less.hyps [OF shorter])
    also have "\<dots> = acc @ getline_loop s' (line @ [CHR 0x0A])"
      using less.hyps [OF shorter, of "line @ [CHR 0x0A]"] by simp
    also have "getline_loop s' (line @ [CHR 0x0A]) = getline_loop s []"
      using Some p by (simp add: getline_loop.simps [of s "[]"])
    finally show ?thesis .
  qed
qed

lemma getline_loop_lines:
  "getline_loop s [] = concat (map (\<lambda>line. line @ [CHR 0x0A]) (file_lines s))"
proof (induction "length s" arbitrary: s rule: less_induct)
  case less
  show ?case
  proof (cases "s = []")
    case True
    then show ?thesis by (simp add: getline_loop.simps [of "[]"])
  next
    case False
    let ?l = "takeWhile (\<lambda>c. c \<noteq> CHR 0x0A) s"
    let ?r = "drop 1 (dropWhile (\<lambda>c. c \<noteq> CHR 0x0A) s)"
    from False have g: "getline s = Some (?l, ?r)" by (simp add: getline_def)
    then have "getline_loop s [] = getline_loop ?r (?l @ [CHR 0x0A])"
      by (simp add: getline_loop.simps [of s "[]"])
    also have "\<dots> = (?l @ [CHR 0x0A]) @ getline_loop ?r []"
      by (rule getline_loop_acc)
    also have "getline_loop ?r [] = concat (map (\<lambda>line. line @ [CHR 0x0A]) (file_lines ?r))"
      by (rule less.hyps [OF getline_rest_shorter [OF g]])
    finally show ?thesis
      by (simp add: file_lines_unfold [OF False])
  qed
qed

text \<open>
  C9. \<^verbatim>\<open>LoadShaderAsString\<close> is total: for a file that cannot be opened it returns the
  empty string, and for any other file the concatenation of the file's lines, each
  followed by one newline character.
\<close>

theorem LoadShaderAsString_result:
  "fst (LoadShaderAsString env filename w) =
     (case file_contents env filename of
        None \<Rightarrow> []
      | Some content \<Rightarrow> concat (map (\<lambda>line. line @ [CHR 0x0A]) (file_lines content)))"
  by (simp add: LoadShaderAsString_def Let_def getline_loop_lines split: option.split)

subsection \<open>The order of the phases\<close>

text \<open>
  A sample environment: the initialization succeeds, the vertex shader is read and
  compiles, the file of the fragment shader cannot be opened and its compilation fails,
  with a log of 12 characters, for which the driver gives the length 13.
\<close>

definition env_sample :: env where
  "env_sample =
     \<lparr>SDL_Init_ret = 0, SDL_CreateWindow_ret = 1, SDL_GL_CreateContext_ret = 2,
      gladLoadGLLoader_ret = 1,
      glGetString_ret = (\<lambda>name. ''4.1''),
      glGenVertexArrays_ret = 1,
      glGenBuffers_ret = (\<lambda>k. if k = 0 then 1 else 2),
      file_contents =
        (\<lambda>f. if f = ''./shaders/vert.glsl'' then Some ''void main(){}'' else None),
      glCreateProgram_ret = 3,
      glCreateShader_ret = (\<lambda>type. if type = GL_VERTEX_SHADER then 1 else 2),
      glGetShaderiv_ret =
        (\<lambda>so pname. if so = 1 then 1 else if pname = GL_INFO_LOG_LENGTH then 13 else 0),
      glGetShaderInfoLog_ret = (\<lambda>so. ''syntax error''),
      empty_array_read = (\<lambda>so. [])\<rparr>"

lemma init_ok_env_sample: "init_ok env_sample"
  by (simp add: init_ok_def env_sample_def nullptr_def)

lemma pipeline_ok_env_sample: "pipeline_ok env_sample"
  by (simp add: pipeline_ok_def compile_throws_def info_log_length_def env_sample_def)

lemma loop_ends_quit: "loop_ends [Some SDL_QUIT, None]"
  by (simp add: loop_ends_def)

text \<open>The calls that upload a buffer, compile a shader and link the program.\<close>

fun is_upload :: "call \<Rightarrow> bool" where
  "is_upload (glBufferData target n b usage) = True"
| "is_upload c = False"

fun is_compile :: "call \<Rightarrow> bool" where
  "is_compile (glCompileShader so) = True"
| "is_compile c = False"

fun is_link :: "call \<Rightarrow> bool" where
  "is_link (glLinkProgram po) = True"
| "is_link c = False"



lemma filter_window_calls [simp]:
  "filter is_upload (window_calls w) = []" "filter is_compile (window_calls w) = []"
  "filter is_link (window_calls w) = []"
  by (simp_all add: window_calls_def)

lemma filter_version_calls [simp]:
  "filter is_upload (version_calls env) = []" "filter is_compile (version_calls env) = []"
  "filter is_link (version_calls env) = []"
  by (simp_all add: version_calls_def)

lemma filter_upload_calls [simp]:
  "filter is_upload (upload_calls env) =
     [glBufferData GL_ARRAY_BUFFER (length vertexData * sizeof_GLfloat) (Floats vertexData)
        GL_STATIC_DRAW,
      glBufferData GL_ELEMENT_ARRAY_BUFFER (length indexBufferData * sizeof_GLuint)
        (UInts indexBufferData) GL_STATIC_DRAW]"
  "filter is_compile (upload_calls env) = []"
  "filter is_link (upload_calls env) = []"
  by (simp_all add: upload_calls_def)

lemma filter_load_calls [simp]:
  "filter is_upload (load_calls env f) = []" "filter is_compile (load_calls env f) = []"
  "filter is_link (load_calls env f) = []"
  by (simp_all add: load_calls_def split: option.split)

lemma filter_compile_calls [simp]:
  "filter is_upload (compile_calls env type source) = []"
  "filter is_compile (compile_calls env type source) = [glCompileShader (glCreateShader_ret env type)]"
  "filter is_link (compile_calls env type source) = []"
  by (simp_all add: compile_calls_def Let_def)

lemma filter_link_calls [simp]:
  "filter is_upload (link_calls po vs fs) = []"
  "filter is_compile (link_calls po vs fs) = []"
  "filter is_link (link_calls po vs fs) = [glLinkProgram po]"
  by (simp_all add: link_calls_def)






lemma calls_globals_start [simp]: "calls (globals_start ps) = []"
  by (simp add: globals_start_def)


text \<open>An environment in which the window cannot be created.\<close>

definition env_no_window :: env where
  "env_no_window = env_sample\<lparr>SDL_CreateWindow_ret := nullptr\<rparr>"


text \<open>
  An environment like the sample, but the driver gives the length \<open>-1\<close> for the log of the
  fragment shader.
\<close>

definition env_negative_log :: env where
  "env_negative_log =
     env_sample\<lparr>glGetShaderiv_ret :=
       (\<lambda>so pname. if so = 1 then 1 else if pname = GL_INFO_LOG_LENGTH then - 1 else 0)\<rparr>"

lemma init_ok_env_negative_log: "init_ok env_negative_log"
  by (simp add: init_ok_def env_negative_log_def env_sample_def nullptr_def)

lemma not_pipeline_ok_env_negative_log: "\<not> pipeline_ok env_negative_log"
  by (simp add: pipeline_ok_def compile_throws_def compile_failed_def info_log_length_def
      env_negative_log_def env_sample_def GL_FALSE_def)




subsection \<open>What the program does about the errors it detects\<close>

text \<open>Environments in which one check of \<^verbatim>\<open>InitializeProgram\<close> fails.\<close>

definition env_no_SDL :: env where
  "env_no_SDL = env_sample\<lparr>SDL_Init_ret := - 1\<rparr>"

definition env_no_context :: env where
  "env_no_context = env_sample\<lparr>SDL_GL_CreateContext_ret := nullptr\<rparr>"

definition env_no_glad :: env where
  "env_no_glad = env_sample\<lparr>gladLoadGLLoader_ret := 0\<rparr>"

text \<open>
  C2, as the code has it. Each of the four failures that \<^verbatim>\<open>InitializeProgram\<close> detects
  is answered by one message and \<^verbatim>\<open>exit(1)\<close>: the message is the last thing the program
  does. A shader that fails to compile, with a length of its log that is not negative,
  is answered by a message and the deletion of the shader: the message ends with what a
  reader of the C string finds in the array of that length, the first \<open>len - 1\<close>
  characters of the log when \<open>len\<close> is positive, and bytes that are not the program's
  when it is 0. \<^verbatim>\<open>CompileShader\<close> then returns 0 and the program continues, so that
  \<^verbatim>\<open>main\<close> still runs the loop and returns 0. A shader that fails to compile with
  a negative length of its log stops the program at \<^verbatim>\<open>new char[length]\<close>, before any
  message.
\<close>

theorem detected_errors:
  "(SDL_Init_ret env < 0 \<longrightarrow>
      main env ps =
        Inl (Exit 1, (globals_start ps)
          \<lparr>calls := [SDL_Init SDL_INIT_VIDEO,
                     cout (''SDL2 could not initialize video subsystem'' @ endl)]\<rparr>))
   \<and> (0 \<le> SDL_Init_ret env \<and> SDL_CreateWindow_ret env = nullptr \<longrightarrow>
      main env ps =
        Inl (Exit 1, (globals_start ps)
          \<lparr>calls := window_calls (globals_start [])
             @ [cout (''SDL Window was not able to be created'' @ endl)]\<rparr>))
   \<and> (0 \<le> SDL_Init_ret env \<and> SDL_CreateWindow_ret env \<noteq> nullptr
        \<and> SDL_GL_CreateContext_ret env = nullptr \<longrightarrow>
      main env ps =
        Inl (Exit 1, (globals_start ps)
          \<lparr>gGraphicsApplicationWindow := SDL_CreateWindow_ret env,
           calls := window_calls (globals_start [])
             @ [SDL_GL_CreateContext (SDL_CreateWindow_ret env),
                cout (''OpenGL context could not be created'' @ endl)]\<rparr>))
   \<and> (0 \<le> SDL_Init_ret env \<and> SDL_CreateWindow_ret env \<noteq> nullptr
        \<and> SDL_GL_CreateContext_ret env \<noteq> nullptr \<and> gladLoadGLLoader_ret env = 0 \<longrightarrow>
      main env ps =
        Inl (Exit 1, (globals_start ps)
          \<lparr>gGraphicsApplicationWindow := SDL_CreateWindow_ret env,
           gOpenGLContext := SDL_GL_CreateContext_ret env,
           calls := window_calls (globals_start [])
             @ [SDL_GL_CreateContext (SDL_CreateWindow_ret env), gladLoadGLLoader,
                cout (''glad was not initialized'' @ endl)]\<rparr>))
   \<and> ((type = GL_VERTEX_SHADER \<or> type = GL_FRAGMENT_SHADER)
        \<and> glGetShaderiv_ret env (glCreateShader_ret env type) GL_COMPILE_STATUS = GL_FALSE
        \<and> 0 \<le> glGetShaderiv_ret env (glCreateShader_ret env type) GL_INFO_LOG_LENGTH \<longrightarrow>
      CompileShader env type source w =
        Inr (0, w\<lparr>calls := calls w
          @ [glCreateShader type,
             glShaderSource (glCreateShader_ret env type) (c_str source),
             glCompileShader (glCreateShader_ret env type),
             glGetShaderiv (glCreateShader_ret env type) GL_COMPILE_STATUS,
             glGetShaderiv (glCreateShader_ret env type) GL_INFO_LOG_LENGTH,
             glGetShaderInfoLog (glCreateShader_ret env type)
               (glGetShaderiv_ret env (glCreateShader_ret env type) GL_INFO_LOG_LENGTH),
             cout ((if type = GL_VERTEX_SHADER
                    then ''ERROR: GL_VERTEX_SHADER compilation failed!''
                    else ''ERROR: GL_FRAGMENT_SHADER compilation failed!'')
                   @ endl
                   @ (if glGetShaderiv_ret env (glCreateShader_ret env type) GL_INFO_LOG_LENGTH = 0
                      then c_str (empty_array_read env (glCreateShader_ret env type))
                      else c_str (take
                        (nat (glGetShaderiv_ret env (glCreateShader_ret env type)
                               GL_INFO_LOG_LENGTH - 1))
                        (glGetShaderInfoLog_ret env (glCreateShader_ret env type))))
                   @ endl),
             glDeleteShader (glCreateShader_ret env type)]\<rparr>))
   \<and> ((type = GL_VERTEX_SHADER \<or> type = GL_FRAGMENT_SHADER)
        \<and> glGetShaderiv_ret env (glCreateShader_ret env type) GL_COMPILE_STATUS = GL_FALSE
        \<and> glGetShaderiv_ret env (glCreateShader_ret env type) GL_INFO_LOG_LENGTH < 0 \<longrightarrow>
      CompileShader env type source w =
        Inl (BadArrayNewLength, w\<lparr>calls := calls w
          @ [glCreateShader type,
             glShaderSource (glCreateShader_ret env type) (c_str source),
             glCompileShader (glCreateShader_ret env type),
             glGetShaderiv (glCreateShader_ret env type) GL_COMPILE_STATUS,
             glGetShaderiv (glCreateShader_ret env type) GL_INFO_LOG_LENGTH]\<rparr>))
   \<and> (init_ok env \<and> pipeline_ok env \<and> loop_ends ps \<longrightarrow> (\<exists>w. main env ps = Inr (0, w)))"
proof (intro conjI impI)
  assume "SDL_Init_ret env < 0"
  then show "main env ps =
        Inl (Exit 1, (globals_start ps)
          \<lparr>calls := [SDL_Init SDL_INIT_VIDEO,
                     cout (''SDL2 could not initialize video subsystem'' @ endl)]\<rparr>)"
    by (simp add: main_def InitializeProgram_no_SDL globals_start_def)
next
  assume "0 \<le> SDL_Init_ret env \<and> SDL_CreateWindow_ret env = nullptr"
  then show "main env ps =
        Inl (Exit 1, (globals_start ps)
          \<lparr>calls := window_calls (globals_start [])
             @ [cout (''SDL Window was not able to be created'' @ endl)]\<rparr>)"
    by (simp add: main_def InitializeProgram_no_window globals_start_def window_calls_def)
next
  assume "0 \<le> SDL_Init_ret env \<and> SDL_CreateWindow_ret env \<noteq> nullptr
        \<and> SDL_GL_CreateContext_ret env = nullptr"
  then show "main env ps =
        Inl (Exit 1, (globals_start ps)
          \<lparr>gGraphicsApplicationWindow := SDL_CreateWindow_ret env,
           calls := window_calls (globals_start [])
             @ [SDL_GL_CreateContext (SDL_CreateWindow_ret env),
                cout (''OpenGL context could not be created'' @ endl)]\<rparr>)"
    by (simp add: main_def InitializeProgram_no_context globals_start_def window_calls_def)
next
  assume "0 \<le> SDL_Init_ret env \<and> SDL_CreateWindow_ret env \<noteq> nullptr
        \<and> SDL_GL_CreateContext_ret env \<noteq> nullptr \<and> gladLoadGLLoader_ret env = 0"
  then show "main env ps =
        Inl (Exit 1, (globals_start ps)
          \<lparr>gGraphicsApplicationWindow := SDL_CreateWindow_ret env,
           gOpenGLContext := SDL_GL_CreateContext_ret env,
           calls := window_calls (globals_start [])
             @ [SDL_GL_CreateContext (SDL_CreateWindow_ret env), gladLoadGLLoader,
                cout (''glad was not initialized'' @ endl)]\<rparr>)"
    by (simp add: main_def InitializeProgram_no_glad globals_start_def window_calls_def)
next
  assume a: "(type = GL_VERTEX_SHADER \<or> type = GL_FRAGMENT_SHADER)
        \<and> glGetShaderiv_ret env (glCreateShader_ret env type) GL_COMPILE_STATUS = GL_FALSE
        \<and> 0 \<le> glGetShaderiv_ret env (glCreateShader_ret env type) GL_INFO_LOG_LENGTH"
  then have "compile_failed env type" and "\<not> compile_throws env type"
    by (simp_all add: compile_failed_def compile_throws_def info_log_length_def)
  with a show "CompileShader env type source w =
        Inr (0, w\<lparr>calls := calls w
          @ [glCreateShader type,
             glShaderSource (glCreateShader_ret env type) (c_str source),
             glCompileShader (glCreateShader_ret env type),
             glGetShaderiv (glCreateShader_ret env type) GL_COMPILE_STATUS,
             glGetShaderiv (glCreateShader_ret env type) GL_INFO_LOG_LENGTH,
             glGetShaderInfoLog (glCreateShader_ret env type)
               (glGetShaderiv_ret env (glCreateShader_ret env type) GL_INFO_LOG_LENGTH),
             cout ((if type = GL_VERTEX_SHADER
                    then ''ERROR: GL_VERTEX_SHADER compilation failed!''
                    else ''ERROR: GL_FRAGMENT_SHADER compilation failed!'')
                   @ endl
                   @ (if glGetShaderiv_ret env (glCreateShader_ret env type) GL_INFO_LOG_LENGTH = 0
                      then c_str (empty_array_read env (glCreateShader_ret env type))
                      else c_str (take
                        (nat (glGetShaderiv_ret env (glCreateShader_ret env type)
                               GL_INFO_LOG_LENGTH - 1))
                        (glGetShaderInfoLog_ret env (glCreateShader_ret env type))))
                   @ endl),
             glDeleteShader (glCreateShader_ret env type)]\<rparr>)"
    by (simp add: CompileShader_eq compile_value_def compile_calls_def Let_def error_text_def
        info_log_length_def)
next
  assume a: "(type = GL_VERTEX_SHADER \<or> type = GL_FRAGMENT_SHADER)
        \<and> glGetShaderiv_ret env (glCreateShader_ret env type) GL_COMPILE_STATUS = GL_FALSE
        \<and> glGetShaderiv_ret env (glCreateShader_ret env type) GL_INFO_LOG_LENGTH < 0"
  then have "compile_failed env type" and "compile_throws env type"
    by (simp_all add: compile_failed_def compile_throws_def info_log_length_def)
  with a show "CompileShader env type source w =
        Inl (BadArrayNewLength, w\<lparr>calls := calls w
          @ [glCreateShader type,
             glShaderSource (glCreateShader_ret env type) (c_str source),
             glCompileShader (glCreateShader_ret env type),
             glGetShaderiv (glCreateShader_ret env type) GL_COMPILE_STATUS,
             glGetShaderiv (glCreateShader_ret env type) GL_INFO_LOG_LENGTH]\<rparr>)"
    by (simp add: CompileShader_eq compile_calls_def Let_def info_log_length_def)
next
  assume "init_ok env \<and> pipeline_ok env \<and> loop_ends ps"
  then show "\<exists>w. main env ps = Inr (0, w)"
    using main_returns [of env ps] by blast
qed

text \<open>
  An environment like the sample, but the driver gives the length 0 for the log of the
  fragment shader, and a reader finds the bytes \<open>?!\<close> and then a zero byte at the array
  of no element; and one in which the driver gives the length 5.
\<close>

definition env_empty_log :: env where
  "env_empty_log =
     env_sample\<lparr>glGetShaderiv_ret := (\<lambda>so pname. if so = 1 then 1 else 0),
                empty_array_read := (\<lambda>so. ''?!'' @ [CHR 0x00] @ ''x'')\<rparr>"

definition env_short_log :: env where
  "env_short_log =
     env_sample\<lparr>glGetShaderiv_ret :=
       (\<lambda>so pname. if so = 1 then 1 else if pname = GL_INFO_LOG_LENGTH then 5 else 0)\<rparr>"

theorem detected_errors_witness:
  "main env_no_SDL [] =
     Inl (Exit 1, (globals_start [])
       \<lparr>calls := [SDL_Init SDL_INIT_VIDEO,
                  cout (''SDL2 could not initialize video subsystem'' @ endl)]\<rparr>)
   \<and> main env_no_window [] =
     Inl (Exit 1, (globals_start [])
       \<lparr>calls := window_calls (globals_start [])
          @ [cout (''SDL Window was not able to be created'' @ endl)]\<rparr>)
   \<and> main env_no_context [] =
     Inl (Exit 1, (globals_start [])
       \<lparr>gGraphicsApplicationWindow := 1,
        calls := window_calls (globals_start [])
          @ [SDL_GL_CreateContext 1, cout (''OpenGL context could not be created'' @ endl)]\<rparr>)
   \<and> main env_no_glad [] =
     Inl (Exit 1, (globals_start [])
       \<lparr>gGraphicsApplicationWindow := 1, gOpenGLContext := 2,
        calls := window_calls (globals_start [])
          @ [SDL_GL_CreateContext 1, gladLoadGLLoader,
             cout (''glad was not initialized'' @ endl)]\<rparr>)
   \<and> CompileShader env_sample GL_FRAGMENT_SHADER [] (globals_start []) =
     Inr (0, (globals_start [])
       \<lparr>calls := [glCreateShader GL_FRAGMENT_SHADER, glShaderSource 2 [], glCompileShader 2,
                  glGetShaderiv 2 GL_COMPILE_STATUS, glGetShaderiv 2 GL_INFO_LOG_LENGTH,
                  glGetShaderInfoLog 2 13,
                  cout (''ERROR: GL_FRAGMENT_SHADER compilation failed!'' @ endl
                        @ ''syntax error'' @ endl),
                  glDeleteShader 2]\<rparr>)
   \<and> CompileShader env_short_log GL_FRAGMENT_SHADER [] (globals_start []) =
     Inr (0, (globals_start [])
       \<lparr>calls := [glCreateShader GL_FRAGMENT_SHADER, glShaderSource 2 [], glCompileShader 2,
                  glGetShaderiv 2 GL_COMPILE_STATUS, glGetShaderiv 2 GL_INFO_LOG_LENGTH,
                  glGetShaderInfoLog 2 5,
                  cout (''ERROR: GL_FRAGMENT_SHADER compilation failed!'' @ endl
                        @ ''synt'' @ endl),
                  glDeleteShader 2]\<rparr>)
   \<and> CompileShader env_empty_log GL_FRAGMENT_SHADER [] (globals_start []) =
     Inr (0, (globals_start [])
       \<lparr>calls := [glCreateShader GL_FRAGMENT_SHADER, glShaderSource 2 [], glCompileShader 2,
                  glGetShaderiv 2 GL_COMPILE_STATUS, glGetShaderiv 2 GL_INFO_LOG_LENGTH,
                  glGetShaderInfoLog 2 0,
                  cout (''ERROR: GL_FRAGMENT_SHADER compilation failed!'' @ endl
                        @ ''?!'' @ endl),
                  glDeleteShader 2]\<rparr>)
   \<and> CompileShader env_negative_log GL_FRAGMENT_SHADER [] (globals_start []) =
     Inl (BadArrayNewLength, (globals_start [])
       \<lparr>calls := [glCreateShader GL_FRAGMENT_SHADER, glShaderSource 2 [], glCompileShader 2,
                  glGetShaderiv 2 GL_COMPILE_STATUS, glGetShaderiv 2 GL_INFO_LOG_LENGTH]\<rparr>)
   \<and> (\<exists>w. main env_sample [Some SDL_QUIT, None] = Inr (0, w))"
  using detected_errors [of env_no_SDL "[]"]
    detected_errors [of env_no_window "[]"]
    detected_errors [of env_no_context "[]"]
    detected_errors [of env_no_glad "[]"]
    detected_errors [of env_sample "[Some SDL_QUIT, None]" GL_FRAGMENT_SHADER "[]" "globals_start []"]
    detected_errors [of env_short_log "[]" GL_FRAGMENT_SHADER "[]" "globals_start []"]
    detected_errors [of env_empty_log "[]" GL_FRAGMENT_SHADER "[]" "globals_start []"]
    detected_errors [of env_negative_log "[]" GL_FRAGMENT_SHADER "[]" "globals_start []"]
    init_ok_env_sample pipeline_ok_env_sample loop_ends_quit
  by (simp add: env_no_SDL_def env_no_window_def env_no_context_def env_no_glad_def
      env_short_log_def env_empty_log_def env_negative_log_def env_sample_def nullptr_def GL_FALSE_def
      globals_start_def c_str_def)

text \<open>
  C2 as stated fails when SDL cannot be initialized: after the message the program does
  not continue, it stops with \<^verbatim>\<open>exit(1)\<close>.
\<close>

theorem main_no_SDL_counterexample:
  "main env_no_SDL [Some SDL_QUIT, None] =
     Inl (Exit 1, (globals_start [Some SDL_QUIT, None])
       \<lparr>calls := [SDL_Init SDL_INIT_VIDEO,
                  cout (''SDL2 could not initialize video subsystem'' @ endl)]\<rparr>)"
  by (simp add: main_def InitializeProgram_no_SDL env_no_SDL_def env_sample_def
      globals_start_def)

subsection \<open>One iteration of the render loop\<close>

text \<open>
  C3. With the quit flag set the loop ends. With the quit flag clear, an iteration takes
  every event the queue holds (\<open>evs\<close>, up to the answer that the queue is empty), then
  clears the framebuffer, binds the shader program and the vertex array, issues one
  indexed draw call and swaps the buffers of the window, in this order; then the loop
  goes on from there, the quit flag set if and only if an \<^verbatim>\<open>SDL_QUIT\<close> was among the
  events.
\<close>

theorem MainLoop_iteration:
  "(gQuit w \<longrightarrow> MainLoop w = Inr w)
   \<and> (\<not> gQuit w \<and> pending w = map Some evs @ None # rest \<longrightarrow>
      MainLoop w =
        MainLoop (w\<lparr>gQuit := SDL_QUIT \<in> set evs,
                    calls := calls w @ poll_calls evs
                      @ [SDL_PollEvent None,
                         glDisable GL_DEPTH_TEST,
                         glDisable GL_CULL_FACE,
                         glViewport 0 0 (gScreenWidth w) (gScreenHeight w),
                         glClearColor 0.03 0.05 0.27 1,
                         glClear [GL_DEPTH_BUFFER_BIT, GL_COLOR_BUFFER_BIT],
                         glUseProgram (gGraphicsPipelineShaderProgram w),
                         glBindVertexArray (gVertexArrayObject w),
                         glBindBuffer GL_ARRAY_BUFFER (gVertexBufferObject w),
                         glDrawElements GL_TRIANGLES 6 GL_UNSIGNED_INT 0,
                         glUseProgram 0,
                         SDL_GL_SwapWindow (gGraphicsApplicationWindow w)],
                    pending := rest\<rparr>))"
proof (intro conjI impI)
  assume "gQuit w"
  then show "MainLoop w = Inr w" by simp
next
  assume "\<not> gQuit w \<and> pending w = map Some evs @ None # rest"
  then have "MainLoop w =
     MainLoop (w\<lparr>gQuit := SDL_QUIT \<in> set evs,
                 calls := calls w @ poll_calls evs @ [SDL_PollEvent None] @ frame_calls w,
                 pending := rest\<rparr>)"
    by (simp add: MainLoop_step)
  then show "MainLoop w =
        MainLoop (w\<lparr>gQuit := SDL_QUIT \<in> set evs,
                    calls := calls w @ poll_calls evs
                      @ [SDL_PollEvent None,
                         glDisable GL_DEPTH_TEST,
                         glDisable GL_CULL_FACE,
                         glViewport 0 0 (gScreenWidth w) (gScreenHeight w),
                         glClearColor 0.03 0.05 0.27 1,
                         glClear [GL_DEPTH_BUFFER_BIT, GL_COLOR_BUFFER_BIT],
                         glUseProgram (gGraphicsPipelineShaderProgram w),
                         glBindVertexArray (gVertexArrayObject w),
                         glBindBuffer GL_ARRAY_BUFFER (gVertexBufferObject w),
                         glDrawElements GL_TRIANGLES 6 GL_UNSIGNED_INT 0,
                         glUseProgram 0,
                         SDL_GL_SwapWindow (gGraphicsApplicationWindow w)],
                    pending := rest\<rparr>)"
    by (simp add: frame_calls_def)
qed

theorem MainLoop_iteration_witness:
  "MainLoop (globals_start [Some (SDL_OTHER 7), None, Some SDL_QUIT, None]) =
     Inr ((globals_start [])
       \<lparr>gQuit := True,
        calls :=
          [SDL_PollEvent (Some (SDL_OTHER 7)), SDL_PollEvent None,
           glDisable GL_DEPTH_TEST, glDisable GL_CULL_FACE, glViewport 0 0 640 480,
           glClearColor 0.03 0.05 0.27 1, glClear [GL_DEPTH_BUFFER_BIT, GL_COLOR_BUFFER_BIT],
           glUseProgram 0, glBindVertexArray 0, glBindBuffer GL_ARRAY_BUFFER 0,
           glDrawElements GL_TRIANGLES 6 GL_UNSIGNED_INT 0, glUseProgram 0,
           SDL_GL_SwapWindow 0,
           SDL_PollEvent (Some SDL_QUIT), cout (''Goodbye!'' @ endl), SDL_PollEvent None,
           glDisable GL_DEPTH_TEST, glDisable GL_CULL_FACE, glViewport 0 0 640 480,
           glClearColor 0.03 0.05 0.27 1, glClear [GL_DEPTH_BUFFER_BIT, GL_COLOR_BUFFER_BIT],
           glUseProgram 0, glBindVertexArray 0, glBindBuffer GL_ARRAY_BUFFER 0,
           glDrawElements GL_TRIANGLES 6 GL_UNSIGNED_INT 0, glUseProgram 0,
           SDL_GL_SwapWindow 0]\<rparr>)"
proof -
  let ?w0 = "globals_start [Some (SDL_OTHER 7), None, Some SDL_QUIT, None]"
  let ?f = "[SDL_PollEvent None,
           glDisable GL_DEPTH_TEST, glDisable GL_CULL_FACE, glViewport 0 0 640 480,
           glClearColor 0.03 0.05 0.27 1, glClear [GL_DEPTH_BUFFER_BIT, GL_COLOR_BUFFER_BIT],
           glUseProgram 0, glBindVertexArray 0, glBindBuffer GL_ARRAY_BUFFER 0,
           glDrawElements GL_TRIANGLES 6 GL_UNSIGNED_INT 0, glUseProgram 0,
           SDL_GL_SwapWindow 0]"
  let ?w1 = "(globals_start [Some SDL_QUIT, None])\<lparr>calls := SDL_PollEvent (Some (SDL_OTHER 7)) # ?f\<rparr>"
  let ?w2 = "(globals_start [])\<lparr>gQuit := True, calls := SDL_PollEvent (Some (SDL_OTHER 7)) # ?f
     @ [SDL_PollEvent (Some SDL_QUIT), cout (''Goodbye!'' @ endl)] @ ?f\<rparr>"
  have "MainLoop ?w0 = MainLoop ?w1"
    using MainLoop_iteration [of ?w0 "[SDL_OTHER 7]" "[Some SDL_QUIT, None]"]
    by (simp add: globals_start_def nullptr_def)
  also have "\<dots> = MainLoop ?w2"
    using MainLoop_iteration [of ?w1 "[SDL_QUIT]" "[]"]
    by (simp add: globals_start_def nullptr_def)
  also have "\<dots> = Inr ?w2"
    using MainLoop_iteration [of ?w2] by simp
  finally show ?thesis by (simp add: globals_start_def)
qed

subsection \<open>The geometry that is uploaded and drawn\<close>

text \<open>The \<open>k\<close>-th vertex of the buffer: six consecutive floats.\<close>

definition vertex :: "nat \<Rightarrow> real list" where
  "vertex k = take 6 (drop (6 * k) vertexData)"

text \<open>
  C4. Whatever the environment answers, \<^verbatim>\<open>VertexSpecification\<close> uploads the same two
  buffers: four vertices of six floats (three of position, then three of colour, as the
  two attribute pointers say: stride six floats, offsets zero and three floats), and the
  six indices 2, 0, 1, 3, 2, 1, each below 4, that is two triangles of three different
  vertices each. \<^verbatim>\<open>Draw\<close> issues one draw call, of \<^verbatim>\<open>GL_TRIANGLES\<close> with count 6.
\<close>

theorem quad_geometry:
  "calls (VertexSpecification env w) =
     calls w @
     [glGenVertexArrays 1,
      glBindVertexArray (glGenVertexArrays_ret env),
      glGenBuffers 1,
      glBindBuffer GL_ARRAY_BUFFER (glGenBuffers_ret env 0),
      glBufferData GL_ARRAY_BUFFER (4 * 6 * sizeof_GLfloat)
        (Floats (vertex 0 @ vertex 1 @ vertex 2 @ vertex 3)) GL_STATIC_DRAW,
      glGenBuffers 1,
      glBindBuffer GL_ELEMENT_ARRAY_BUFFER (glGenBuffers_ret env 1),
      glBufferData GL_ELEMENT_ARRAY_BUFFER (6 * sizeof_GLuint)
        (UInts [2, 0, 1, 3, 2, 1]) GL_STATIC_DRAW,
      glEnableVertexAttribArray 0,
      glVertexAttribPointer 0 3 GL_FLOAT GL_FALSE (6 * sizeof_GLfloat) 0,
      glEnableVertexAttribArray 1,
      glVertexAttribPointer 1 3 GL_FLOAT GL_FALSE (6 * sizeof_GLfloat) (3 * sizeof_GLfloat),
      glBindVertexArray 0,
      glDisableVertexAttribArray 0,
      glDisableVertexAttribArray 1]
   \<and> vertex 0 = [- 0.5, - 0.5, 0] @ [1, 0, 0]
   \<and> vertex 1 = [0.5, - 0.5, 0] @ [0, 1, 0]
   \<and> vertex 2 = [- 0.5, 0.5, 0] @ [0, 0, 1]
   \<and> vertex 3 = [0.5, 0.5, 0] @ [0, 1, 0]
   \<and> length vertexData = 4 * 6
   \<and> indexBufferData = [2, 0, 1, 3, 2, 1]
   \<and> list_all (\<lambda>i. i < 4) indexBufferData
   \<and> distinct (take 3 indexBufferData) \<and> distinct (drop 3 indexBufferData)
   \<and> filter is_draw (calls (Draw w)) =
       filter is_draw (calls w) @ [glDrawElements GL_TRIANGLES 6 GL_UNSIGNED_INT 0]"
proof -
  have v: "vertex 0 = [- 0.5, - 0.5, 0] @ [1, 0, 0]" "vertex 1 = [0.5, - 0.5, 0] @ [0, 1, 0]"
    "vertex 2 = [- 0.5, 0.5, 0] @ [0, 0, 1]" "vertex 3 = [0.5, 0.5, 0] @ [0, 1, 0]"
    by (simp_all add: vertex_def vertexData_def)
  then have d: "vertex 0 @ vertex 1 @ vertex 2 @ vertex 3 = vertexData"
    by (simp add: vertexData_def)
  have n: "length vertexData = 4 * 6" by (simp add: vertexData_def)
  have i: "indexBufferData = [2, 0, 1, 3, 2, 1]" by (simp add: indexBufferData_def)
  have "calls (VertexSpecification env w) = calls w @ upload_calls env"
    by (simp add: VertexSpecification_eq)
  then have c: "calls (VertexSpecification env w) =
     calls w @
     [glGenVertexArrays 1,
      glBindVertexArray (glGenVertexArrays_ret env),
      glGenBuffers 1,
      glBindBuffer GL_ARRAY_BUFFER (glGenBuffers_ret env 0),
      glBufferData GL_ARRAY_BUFFER (4 * 6 * sizeof_GLfloat)
        (Floats (vertex 0 @ vertex 1 @ vertex 2 @ vertex 3)) GL_STATIC_DRAW,
      glGenBuffers 1,
      glBindBuffer GL_ELEMENT_ARRAY_BUFFER (glGenBuffers_ret env 1),
      glBufferData GL_ELEMENT_ARRAY_BUFFER (6 * sizeof_GLuint)
        (UInts [2, 0, 1, 3, 2, 1]) GL_STATIC_DRAW,
      glEnableVertexAttribArray 0,
      glVertexAttribPointer 0 3 GL_FLOAT GL_FALSE (6 * sizeof_GLfloat) 0,
      glEnableVertexAttribArray 1,
      glVertexAttribPointer 1 3 GL_FLOAT GL_FALSE (6 * sizeof_GLfloat) (3 * sizeof_GLfloat),
      glBindVertexArray 0,
      glDisableVertexAttribArray 0,
      glDisableVertexAttribArray 1]"
    unfolding d by (simp add: upload_calls_def n i mult.commute)
  have l: "list_all (\<lambda>i. i < 4) indexBufferData"
    by (simp add: indexBufferData_def)
  have t: "distinct (take 3 indexBufferData)" "distinct (drop 3 indexBufferData)"
    by (simp_all add: indexBufferData_def)
  have dr: "filter is_draw (calls (Draw w)) =
       filter is_draw (calls w) @ [glDrawElements GL_TRIANGLES 6 GL_UNSIGNED_INT 0]"
    by (simp add: Draw_def Let_def emit_def)
  from c v n i l t dr show ?thesis by blast
qed

subsection \<open>The teardown\<close>

lemma block_other_phase:
  assumes "block p t" and "p \<noteq> q"
  shows "filter (\<lambda>c. phase_of c = Some q) t = []"
  using assms by (auto simp: block_def filter_empty_conv)

text \<open>
  C7. \<^verbatim>\<open>CleanUp\<close> destroys the window and quits SDL, and changes no global: the four
  handles of GPU objects, the OpenGL context and the window pointer keep their values.
  When \<^verbatim>\<open>main\<close> returns, it returns 0, right after \<^verbatim>\<open>CleanUp\<close>, and these two
  calls are the whole teardown.
\<close>

theorem CleanUp_frame:
  "CleanUp w =
     w\<lparr>calls := calls w @ [SDL_DestroyWindow (gGraphicsApplicationWindow w), SDL_Quit]\<rparr>
   \<and> gVertexArrayObject (CleanUp w) = gVertexArrayObject w
   \<and> gVertexBufferObject (CleanUp w) = gVertexBufferObject w
   \<and> gIndexBufferObject (CleanUp w) = gIndexBufferObject w
   \<and> gGraphicsPipelineShaderProgram (CleanUp w) = gGraphicsPipelineShaderProgram w
   \<and> gOpenGLContext (CleanUp w) = gOpenGLContext w
   \<and> gGraphicsApplicationWindow (CleanUp w) = gGraphicsApplicationWindow w
   \<and> (main env ps = Inr (r, w') \<longrightarrow>
        r = 0 \<and> (\<exists>w4. MainLoop (setup_world env ps) = Inr w4 \<and> w' = CleanUp w4)
        \<and> filter (\<lambda>c. phase_of c = Some Teardown) (calls w') =
            [SDL_DestroyWindow (gGraphicsApplicationWindow w'), SDL_Quit])"
proof -
  have 1: "CleanUp w =
     w\<lparr>calls := calls w @ [SDL_DestroyWindow (gGraphicsApplicationWindow w), SDL_Quit]\<rparr>"
    by (rule CleanUp_eq)
  have 2: "r = 0 \<and> (\<exists>w4. MainLoop (setup_world env ps) = Inr w4 \<and> w' = CleanUp w4)
        \<and> filter (\<lambda>c. phase_of c = Some Teardown) (calls w') =
            [SDL_DestroyWindow (gGraphicsApplicationWindow w'), SDL_Quit]"
    if m: "main env ps = Inr (r, w')"
  proof -
    from m have ok: "init_ok env" and pok: "pipeline_ok env" and ends: "loop_ends ps"
      using main_returns_iff [of env ps] by blast+
    let ?w = "setup_world env ps"
    from main_returns [OF ok pok ends] obtain t rest where
      e: "main env ps = Inr (0, ?w\<lparr>gQuit := True,
            calls := setup_calls env @ t @ [SDL_DestroyWindow (SDL_CreateWindow_ret env), SDL_Quit],
            pending := rest\<rparr>)"
      and l: "list_all (loop_call ?w) t"
      by blast
    from e m have r: "r = 0" and w': "w' = ?w\<lparr>gQuit := True,
            calls := setup_calls env @ t @ [SDL_DestroyWindow (SDL_CreateWindow_ret env), SDL_Quit],
            pending := rest\<rparr>"
      by simp_all
    from m ok pok have "\<exists>w4. MainLoop ?w = Inr w4 \<and> w' = CleanUp w4"
      by (auto simp: main_after_setup split: sum.splits)
    moreover have "filter (\<lambda>c. phase_of c = Some Teardown) (setup_calls env) = []"
      using block_other_phase [OF block_init, of Teardown]
        block_other_phase [OF block_upload, of Teardown]
        block_other_phase [OF block_pipeline, of Teardown]
      by (simp add: setup_calls_def)
    moreover have "filter (\<lambda>c. phase_of c = Some Teardown) t = []"
    proof -
      have "phase_of c \<noteq> Some Teardown" if "c \<in> set t" for c
        using that l loop_call_phase [of ?w c] by (auto simp: list_all_iff)
      then show ?thesis by (auto simp: filter_empty_conv)
    qed
    ultimately show ?thesis using r w' by simp
  qed
  from 1 2 show ?thesis by simp
qed

theorem CleanUp_frame_witness:
  "\<exists>w'. main env_sample [Some SDL_QUIT, None] = Inr (0, w')
     \<and> (\<exists>w4. MainLoop (setup_world env_sample [Some SDL_QUIT, None]) = Inr w4 \<and> w' = CleanUp w4)
     \<and> filter (\<lambda>c. phase_of c = Some Teardown) (calls w') =
            [SDL_DestroyWindow (gGraphicsApplicationWindow w'), SDL_Quit]"
proof -
  from main_returns [OF init_ok_env_sample pipeline_ok_env_sample loop_ends_quit]
  obtain w' where m: "main env_sample [Some SDL_QUIT, None] = Inr (0, w')"
    by blast
  with CleanUp_frame [of _ env_sample "[Some SDL_QUIT, None]" 0 w'] show ?thesis
    by blast
qed

subsection \<open>The shader handle of \<^verbatim>\<open>CompileShader\<close>\<close>

lemma main_stop_cases:
  assumes "main env ps = Inl (s, w)"
  shows "s = Exit 1 \<or> s = Pending \<or> s = BadArrayNewLength"
proof (cases "init_ok env")
  case True
  show ?thesis
  proof (cases "pipeline_ok env")
    case ok: True
    with True assms have "MainLoop (setup_world env ps) = Inl (s, w)"
      by (auto simp: main_after_setup split: sum.splits)
    then have "s = Pending"
      using MainLoop_stops_Pending [of "setup_world env ps" s w] by simp
    then show ?thesis by simp
  next
    case False
    with True assms show ?thesis by (simp add: main_pipeline_throws)
  qed
next
  case False
  then obtain w' where "InitializeProgram env (globals_start ps) = Inl (Exit 1, w')"
    using InitializeProgram_fails by blast
  with assms show ?thesis by (simp add: main_def)
qed

text \<open>
  C8. \<^verbatim>\<open>CompileShader\<close> reads its handle unassigned exactly when the type is neither
  \<^verbatim>\<open>GL_VERTEX_SHADER\<close> nor \<^verbatim>\<open>GL_FRAGMENT_SHADER\<close>; with one of these two types it
  returns, or stops later at \<^verbatim>\<open>new char[length]\<close> when the compilation has failed with
  a negative length of the log. \<^verbatim>\<open>CreateShaderProgram\<close> calls it with these two types
  and no other, so neither it nor \<^verbatim>\<open>CreateGraphicsPipeline\<close> nor \<^verbatim>\<open>main\<close> ever reads
  the handle unassigned.
\<close>

theorem CompileShader_initialized:
  "((\<exists>w'. CompileShader env type source w = Inl (UninitRead, w'))
      \<longleftrightarrow> type \<noteq> GL_VERTEX_SHADER \<and> type \<noteq> GL_FRAGMENT_SHADER)
   \<and> (type = GL_VERTEX_SHADER \<or> type = GL_FRAGMENT_SHADER \<longrightarrow>
        (if glGetShaderiv_ret env (glCreateShader_ret env type) GL_COMPILE_STATUS = GL_FALSE
            \<and> glGetShaderiv_ret env (glCreateShader_ret env type) GL_INFO_LOG_LENGTH < 0
         then \<exists>w'. CompileShader env type source w = Inl (BadArrayNewLength, w')
         else \<exists>so w'. CompileShader env type source w = Inr (so, w')))
   \<and> CreateShaderProgram env vs fs w =
        (case CompileShader env GL_VERTEX_SHADER vs (emit glCreateProgram w) of
           Inl e \<Rightarrow> Inl e
         | Inr (myVertexShader, w1) \<Rightarrow>
            (case CompileShader env GL_FRAGMENT_SHADER fs w1 of
               Inl e \<Rightarrow> Inl e
             | Inr (myFragmentShader, w2) \<Rightarrow>
                Inr (glCreateProgram_ret env,
                     w2\<lparr>calls := calls w2
                       @ link_calls (glCreateProgram_ret env) myVertexShader myFragmentShader\<rparr>)))
   \<and> (\<forall>w'. CreateShaderProgram env vs fs w \<noteq> Inl (UninitRead, w'))
   \<and> (\<forall>w'. CreateGraphicsPipeline env w \<noteq> Inl (UninitRead, w'))
   \<and> (\<forall>w'. main env ps \<noteq> Inl (UninitRead, w'))"
proof -
  have 1: "(\<exists>w'. CompileShader env type source w = Inl (UninitRead, w'))
      \<longleftrightarrow> type \<noteq> GL_VERTEX_SHADER \<and> type \<noteq> GL_FRAGMENT_SHADER"
  proof (cases "type = GL_VERTEX_SHADER \<or> type = GL_FRAGMENT_SHADER")
    case True
    then show ?thesis by (auto simp: CompileShader_eq)
  next
    case False
    then show ?thesis by (simp add: CompileShader_uninit)
  qed
  have 2: "type = GL_VERTEX_SHADER \<or> type = GL_FRAGMENT_SHADER \<longrightarrow>
        (if glGetShaderiv_ret env (glCreateShader_ret env type) GL_COMPILE_STATUS = GL_FALSE
            \<and> glGetShaderiv_ret env (glCreateShader_ret env type) GL_INFO_LOG_LENGTH < 0
         then \<exists>w'. CompileShader env type source w = Inl (BadArrayNewLength, w')
         else \<exists>so w'. CompileShader env type source w = Inr (so, w'))"
    by (simp add: CompileShader_eq compile_throws_def compile_failed_def info_log_length_def)
  have 3: "CreateShaderProgram env vs fs w =
        (case CompileShader env GL_VERTEX_SHADER vs (emit glCreateProgram w) of
           Inl e \<Rightarrow> Inl e
         | Inr (myVertexShader, w1) \<Rightarrow>
            (case CompileShader env GL_FRAGMENT_SHADER fs w1 of
               Inl e \<Rightarrow> Inl e
             | Inr (myFragmentShader, w2) \<Rightarrow>
                Inr (glCreateProgram_ret env,
                     w2\<lparr>calls := calls w2
                       @ link_calls (glCreateProgram_ret env) myVertexShader myFragmentShader\<rparr>)))"
    by (simp add: CreateShaderProgram_def Let_def emit_def link_calls_def
        split: sum.split prod.split)
  have 4: "\<forall>w'. CreateShaderProgram env vs fs w \<noteq> Inl (UninitRead, w')"
    by (simp add: CreateShaderProgram_eq)
  have 5: "\<forall>w'. CreateGraphicsPipeline env w \<noteq> Inl (UninitRead, w')"
    by (simp add: CreateGraphicsPipeline_eq)
  have 6: "\<forall>w'. main env ps \<noteq> Inl (UninitRead, w')"
    using main_stop_cases [of env ps UninitRead] by auto
  from 1 2 3 4 5 6 show ?thesis by blast
qed

theorem CompileShader_initialized_witness:
  "(\<exists>so w'. CompileShader env_sample GL_VERTEX_SHADER ''void main(){}'' (globals_start []) = Inr (so, w'))
   \<and> (\<exists>w'. CompileShader env_sample GL_GEOMETRY_SHADER ''void main(){}'' (globals_start [])
         = Inl (UninitRead, w'))
   \<and> (\<exists>w'. CompileShader env_negative_log GL_FRAGMENT_SHADER [] (globals_start [])
         = Inl (BadArrayNewLength, w'))"
  using CompileShader_initialized [of env_sample GL_VERTEX_SHADER "''void main(){}''" "globals_start []"]
    CompileShader_initialized [of env_sample GL_GEOMETRY_SHADER "''void main(){}''" "globals_start []"]
    CompileShader_initialized [of env_negative_log GL_FRAGMENT_SHADER "[]" "globals_start []"]
  by (simp add: env_sample_def env_negative_log_def GL_FALSE_def)

subsection \<open>When the render loop ends\<close>

text \<open>
  C5, as the code has it. Started with the quit flag clear, the loop returns if and only
  if an \<^verbatim>\<open>SDL_QUIT\<close> event is polled and the queue is then found empty; until then the
  program is still polling. When the loop returns the quit flag is set, and after the
  \<^verbatim>\<open>SDL_QUIT\<close> event was handed out exactly one frame was drawn: the frame of the
  iteration that polled it.
\<close>

theorem MainLoop_ends_after_quit:
  assumes "\<not> gQuit w"
  shows "((\<exists>w'. MainLoop w = Inr w') \<longleftrightarrow> loop_ends (pending w))
    \<and> (\<not> loop_ends (pending w) \<longrightarrow> (\<exists>w'. MainLoop w = Inl (Pending, w')))
    \<and> (\<forall>w'. MainLoop w = Inr w' \<longrightarrow>
          gQuit w'
          \<and> SDL_PollEvent (Some SDL_QUIT) \<in> set (drop (length (calls w)) (calls w'))
          \<and> frames_drawn (after_quit (drop (length (calls w)) (calls w'))) = 1)"
proof -
  have 1: "(\<exists>w'. MainLoop w = Inr w') \<longleftrightarrow> loop_ends (pending w)"
    using assms by (rule MainLoop_returns_iff)
  have 2: "\<exists>w'. MainLoop w = Inl (Pending, w')" if "\<not> loop_ends (pending w)"
  proof (cases "MainLoop w")
    case (Inl e)
    obtain s w' where "e = (s, w')" by (cases e)
    with Inl MainLoop_stops_Pending [OF assms, of s w'] show ?thesis by simp
  next
    case (Inr w')
    with 1 that show ?thesis by blast
  qed
  have 3: "gQuit w'
          \<and> SDL_PollEvent (Some SDL_QUIT) \<in> set (drop (length (calls w)) (calls w'))
          \<and> frames_drawn (after_quit (drop (length (calls w)) (calls w'))) = 1"
    if "MainLoop w = Inr w'" for w'
  proof -
    from MainLoop_returns_effect [OF assms that] obtain t rest where
      "w' = w\<lparr>gQuit := True, calls := calls w @ t, pending := rest\<rparr>"
      and "SDL_PollEvent (Some SDL_QUIT) \<in> set t" and "frames_drawn (after_quit t) = 1"
      by blast
    then show ?thesis by simp
  qed
  from 1 2 3 show ?thesis by blast
qed

theorem MainLoop_ends_after_quit_witness:
  "\<not> gQuit (globals_start [Some (SDL_OTHER 7), None, Some SDL_QUIT, Some (SDL_OTHER 8), None, None])
   \<and> loop_ends [Some (SDL_OTHER 7), None, Some SDL_QUIT, Some (SDL_OTHER 8), None, None]
   \<and> (\<exists>w'. MainLoop (globals_start
          [Some (SDL_OTHER 7), None, Some SDL_QUIT, Some (SDL_OTHER 8), None, None]) = Inr w'
        \<and> gQuit w'
        \<and> SDL_PollEvent (Some SDL_QUIT) \<in> set (calls w')
        \<and> frames_drawn (after_quit (calls w')) = 1)
   \<and> \<not> gQuit (globals_start [Some (SDL_OTHER 7), None, Some SDL_QUIT, Some (SDL_OTHER 8)])
   \<and> \<not> loop_ends [Some (SDL_OTHER 7), None, Some SDL_QUIT, Some (SDL_OTHER 8)]
   \<and> (\<exists>w'. MainLoop (globals_start
          [Some (SDL_OTHER 7), None, Some SDL_QUIT, Some (SDL_OTHER 8)]) = Inl (Pending, w'))"
proof -
  let ?ps = "[Some (SDL_OTHER 7), None, Some SDL_QUIT, Some (SDL_OTHER 8), None, None]"
  let ?qs = "[Some (SDL_OTHER 7), None, Some SDL_QUIT, Some (SDL_OTHER 8)]"
  have g: "\<not> gQuit (globals_start ?ps)" "\<not> gQuit (globals_start ?qs)"
    by (simp_all add: globals_start_def)
  have e: "loop_ends ?ps" "\<not> loop_ends ?qs"
    by (simp_all add: loop_ends_def)
  have c: "calls (globals_start ?ps) = []" "pending (globals_start ?ps) = ?ps"
    "pending (globals_start ?qs) = ?qs"
    by (simp_all add: globals_start_def)
  from MainLoop_ends_after_quit [OF g(1)] MainLoop_ends_after_quit [OF g(2)] g e show ?thesis
    unfolding c by auto
qed

text \<open>
  The words of C5: once \<^verbatim>\<open>SDL_PollEvent\<close> has handed out an \<^verbatim>\<open>SDL_QUIT\<close> event, no
  further frame is drawn.
\<close>

definition no_frame_after_quit :: "call list \<Rightarrow> bool" where
  "no_frame_after_quit cs \<longleftrightarrow> frames_drawn (after_quit cs) = 0"

theorem frame_after_quit_counterexample:
  "MainLoop (globals_start [Some SDL_QUIT, None]) =
     Inr ((globals_start [])
       \<lparr>gQuit := True,
        calls :=
          [SDL_PollEvent (Some SDL_QUIT), cout (''Goodbye!'' @ endl), SDL_PollEvent None,
           glDisable GL_DEPTH_TEST, glDisable GL_CULL_FACE, glViewport 0 0 640 480,
           glClearColor 0.03 0.05 0.27 1, glClear [GL_DEPTH_BUFFER_BIT, GL_COLOR_BUFFER_BIT],
           glUseProgram 0, glBindVertexArray 0, glBindBuffer GL_ARRAY_BUFFER 0,
           glDrawElements GL_TRIANGLES 6 GL_UNSIGNED_INT 0, glUseProgram 0,
           SDL_GL_SwapWindow 0]\<rparr>)
   \<and> \<not> no_frame_after_quit
          [SDL_PollEvent (Some SDL_QUIT), cout (''Goodbye!'' @ endl), SDL_PollEvent None,
           glDisable GL_DEPTH_TEST, glDisable GL_CULL_FACE, glViewport 0 0 640 480,
           glClearColor 0.03 0.05 0.27 1, glClear [GL_DEPTH_BUFFER_BIT, GL_COLOR_BUFFER_BIT],
           glUseProgram 0, glBindVertexArray 0, glBindBuffer GL_ARRAY_BUFFER 0,
           glDrawElements GL_TRIANGLES 6 GL_UNSIGNED_INT 0, glUseProgram 0,
           SDL_GL_SwapWindow 0]"
proof -
  let ?w = "globals_start [Some SDL_QUIT, None]"
  have "\<not> gQuit ?w" and "pending ?w = map Some [SDL_QUIT] @ None # []"
    and "SDL_QUIT \<in> set [SDL_QUIT]"
    by (simp_all add: globals_start_def)
  then have "MainLoop ?w =
     Inr (?w\<lparr>gQuit := True,
            calls := calls ?w @ poll_calls [SDL_QUIT] @ [SDL_PollEvent None] @ frame_calls ?w,
            pending := []\<rparr>)"
    by (rule MainLoop_last_frame)
  then show ?thesis
    by (simp add: globals_start_def frame_calls_def nullptr_def no_frame_after_quit_def
        frames_drawn_def after_quit_def)
qed

subsection \<open>The shader pair and the pipeline handle\<close>

text \<open>
  The calls that open a file; the calls that build the program, which are these and
  the calls that create a shader or the program, hand a source to a shader, compile a
  shader, attach a shader and link the program; the calls that hand a source to a
  shader; and the calls that bind a program.
\<close>

fun is_open :: "call \<Rightarrow> bool" where
  "is_open (ifstream_open filename) = True"
| "is_open c = False"

fun builds_program :: "call \<Rightarrow> bool" where
  "builds_program (ifstream_open filename) = True"
| "builds_program glCreateProgram = True"
| "builds_program (glCreateShader type) = True"
| "builds_program (glShaderSource so source) = True"
| "builds_program (glCompileShader so) = True"
| "builds_program (glAttachShader po so) = True"
| "builds_program (glLinkProgram po) = True"
| "builds_program c = False"

fun is_source :: "call \<Rightarrow> bool" where
  "is_source (glShaderSource so source) = True"
| "is_source c = False"

fun is_use :: "call \<Rightarrow> bool" where
  "is_use (glUseProgram po) = True"
| "is_use c = False"

text \<open>
  The text of a file as its lines, each followed by one newline character; the empty
  text for a file that cannot be opened.
\<close>

definition file_text :: "env \<Rightarrow> string \<Rightarrow> string" where
  "file_text env filename =
     (case file_contents env filename of
        None \<Rightarrow> []
      | Some content \<Rightarrow> concat (map (\<lambda>line. line @ [CHR 0x0A]) (file_lines content)))"

lemma shader_source_file_text: "shader_source env filename = file_text env filename"
  by (simp add: shader_source_def file_text_def getline_loop_lines split: option.split)

lemma filter_window_version_upload [simp]:
  "filter is_open (window_calls w) = []" "filter is_open (version_calls env) = []"
  "filter is_open (upload_calls env) = []"
  "filter builds_program (window_calls w) = []" "filter builds_program (version_calls env) = []"
  "filter builds_program (upload_calls env) = []"
  "filter is_poll (window_calls w) = []" "filter is_poll (version_calls env) = []"
  "filter is_poll (upload_calls env) = []"
  "filter (\<lambda>c. is_use c \<or> is_draw c) (window_calls w) = []"
  "filter (\<lambda>c. is_use c \<or> is_draw c) (version_calls env) = []"
  "filter (\<lambda>c. is_use c \<or> is_draw c) (upload_calls env) = []"
  by (simp_all add: window_calls_def version_calls_def upload_calls_def)

lemma filter_load_calls_more [simp]:
  "filter is_open (load_calls env f) = [ifstream_open f]"
  "filter builds_program (load_calls env f) = [ifstream_open f]"
  "filter is_poll (load_calls env f) = []"
  "filter (\<lambda>c. is_use c \<or> is_draw c) (load_calls env f) = []"
  by (simp_all add: load_calls_def split: option.split)

lemma filter_compile_calls_more [simp]:
  "filter is_open (compile_calls env type source) = []"
  "filter builds_program (compile_calls env type source) =
     [glCreateShader type, glShaderSource (glCreateShader_ret env type) (c_str source),
      glCompileShader (glCreateShader_ret env type)]"
  "filter is_poll (compile_calls env type source) = []"
  "filter (\<lambda>c. is_use c \<or> is_draw c) (compile_calls env type source) = []"
  by (simp_all add: compile_calls_def Let_def)

lemma filter_link_calls_more [simp]:
  "filter is_open (link_calls po vs fs) = []"
  "filter builds_program (link_calls po vs fs) =
     [glAttachShader po vs, glAttachShader po fs, glLinkProgram po]"
  "filter is_poll (link_calls po vs fs) = []"
  "filter (\<lambda>c. is_use c \<or> is_draw c) (link_calls po vs fs) = []"
  by (simp_all add: link_calls_def)

lemma filter_setup_calls_more:
  "filter is_open (setup_calls env) =
     [ifstream_open ''./shaders/vert.glsl'', ifstream_open ''./shaders/frag.glsl'']"
  "filter is_poll (setup_calls env) = []"
  "filter (\<lambda>c. is_use c \<or> is_draw c) (setup_calls env) = []"
  by (simp_all add: setup_calls_def pipeline_calls_def program_calls_def)

lemma no_link_when_throws:
  assumes "\<not> pipeline_ok env"
  shows "filter is_link (setup_calls env) = []"
  using assms by (auto simp: setup_calls_def pipeline_calls_def program_calls_def pipeline_ok_def)

lemma builds_program_setup_calls:
  assumes "pipeline_ok env"
  shows "filter builds_program (setup_calls env) =
     [ifstream_open ''./shaders/vert.glsl'', ifstream_open ''./shaders/frag.glsl'',
      glCreateProgram,
      glCreateShader GL_VERTEX_SHADER,
      glShaderSource (glCreateShader_ret env GL_VERTEX_SHADER)
        (c_str (file_text env ''./shaders/vert.glsl'')),
      glCompileShader (glCreateShader_ret env GL_VERTEX_SHADER),
      glCreateShader GL_FRAGMENT_SHADER,
      glShaderSource (glCreateShader_ret env GL_FRAGMENT_SHADER)
        (c_str (file_text env ''./shaders/frag.glsl'')),
      glCompileShader (glCreateShader_ret env GL_FRAGMENT_SHADER),
      glAttachShader (glCreateProgram_ret env) (compile_value env GL_VERTEX_SHADER),
      glAttachShader (glCreateProgram_ret env) (compile_value env GL_FRAGMENT_SHADER),
      glLinkProgram (glCreateProgram_ret env)]"
  using assms
  by (simp add: setup_calls_def pipeline_calls_def program_calls_def pipeline_ok_def
      shader_source_file_text)

lemma takeWhile_no_poll_setup:
  "takeWhile (\<lambda>c. \<not> is_poll c) (setup_calls env @ t) =
     setup_calls env @ takeWhile (\<lambda>c. \<not> is_poll c) t"
proof -
  have "\<forall>c \<in> set (setup_calls env). \<not> is_poll c"
    using filter_setup_calls_more(2) [of env] by (simp add: filter_empty_conv)
  then show ?thesis by (simp add: takeWhile_append2)
qed

lemma filter_takeWhile_none:
  assumes "filter P t = []"
  shows "filter P (takeWhile Q t) = []"
proof -
  have "set (takeWhile Q t) \<subseteq> set t" by (auto dest: set_takeWhileD)
  moreover have "\<forall>c \<in> set t. \<not> P c" using assms by (simp only: filter_empty_conv)
  ultimately show ?thesis by (auto simp: filter_empty_conv)
qed

lemma draws_of_binds:
  "length (filter is_draw cs) = length (filter is_draw (filter (\<lambda>c. is_use c \<or> is_draw c) cs))"
  by (induction cs) auto

lemma draws_of_frames:
  "length (filter is_draw
     (concat (replicate n [glUseProgram po, glDrawElements mode k type offset, glUseProgram 0]))) = n"
  by (induction n) simp_all

lemma main_init_failure_calls:
  assumes "\<not> init_ok env"
  shows "filter is_open (calls (main_world (main env ps))) = []"
    and "filter builds_program (calls (main_world (main env ps))) = []"
    and "gGraphicsPipelineShaderProgram (main_world (main env ps)) = 0"
proof -
  have "filter is_open (calls (main_world (main env ps))) = []
    \<and> filter builds_program (calls (main_world (main env ps))) = []
    \<and> gGraphicsPipelineShaderProgram (main_world (main env ps)) = 0"
  proof (cases "SDL_Init_ret env < 0")
    case True
    then show ?thesis
      by (simp add: main_def InitializeProgram_no_SDL globals_start_def)
  next
    case sdl: False
    show ?thesis
    proof (cases "SDL_CreateWindow_ret env = nullptr")
      case True
      with sdl show ?thesis
        by (simp add: main_def InitializeProgram_no_window globals_start_def)
    next
      case window: False
      show ?thesis
      proof (cases "SDL_GL_CreateContext_ret env = nullptr")
        case True
        with sdl window show ?thesis
          by (simp add: main_def InitializeProgram_no_context globals_start_def)
      next
        case False
        with sdl window assms have "gladLoadGLLoader_ret env = 0"
          by (simp add: init_ok_def)
        with sdl window False show ?thesis
          by (simp add: main_def InitializeProgram_no_glad globals_start_def)
      qed
    qed
  qed
  then show "filter is_open (calls (main_world (main env ps))) = []"
    and "filter builds_program (calls (main_world (main env ps))) = []"
    and "gGraphicsPipelineShaderProgram (main_world (main env ps)) = 0"
    by simp_all
qed

text \<open>
  The calls of one whole iteration of the loop that takes the events \<open>evs\<close>; the calls
  of the loop are such iterations one after the other, and then the polls of an
  iteration that is still waiting for \<^verbatim>\<open>SDL_PollEvent\<close>.
\<close>

definition frame_trace :: "world \<Rightarrow> SDL_Event list \<Rightarrow> call list" where
  "frame_trace w evs = poll_calls evs @ [SDL_PollEvent None] @ frame_calls w"

lemma frame_trace_cong [simp]:
  "frame_trace (w\<lparr>gQuit := q\<rparr>) = frame_trace w"
  "frame_trace (w\<lparr>calls := cs\<rparr>) = frame_trace w"
  "frame_trace (w\<lparr>pending := ps\<rparr>) = frame_trace w"
  by (simp_all add: frame_trace_def fun_eq_iff)

lemma world_update_twice:
  "(w\<lparr>calls := calls w @ a, pending := r\<rparr>)
     \<lparr>gQuit := q, calls := calls (w\<lparr>calls := calls w @ a, pending := r\<rparr>) @ b, pending := r'\<rparr> =
   w\<lparr>gQuit := q, calls := calls w @ a @ b, pending := r'\<rparr>"
  by (cases w) simp

lemma MainLoop_frames:
  assumes "\<not> gQuit w"
  shows "\<exists>evss tail rest.
    world_of (MainLoop w) =
      w\<lparr>gQuit := SDL_QUIT \<in> set (concat evss @ tail),
        calls := calls w @ concat (map (frame_trace w) evss) @ poll_calls tail,
        pending := rest\<rparr>"
  using assms
proof (induction w rule: MainLoop_frames_induct)
  case (starved w evs)
  then have "world_of (MainLoop w) =
      w\<lparr>gQuit := SDL_QUIT \<in> set (concat [] @ evs),
        calls := calls w @ concat (map (frame_trace w) []) @ poll_calls evs, pending := []\<rparr>"
    by (simp add: MainLoop_starved)
  then show ?case by blast
next
  case (last_frame w evs rest)
  then have "world_of (MainLoop w) =
      w\<lparr>gQuit := SDL_QUIT \<in> set (concat [evs] @ []),
        calls := calls w @ concat (map (frame_trace w) [evs]) @ poll_calls [], pending := rest\<rparr>"
    by (simp add: MainLoop_last_frame frame_trace_def)
  then show ?case by blast
next
  case (next_frame w evs rest)
  let ?w = "w\<lparr>calls := calls w @ poll_calls evs @ [SDL_PollEvent None] @ frame_calls w,
              pending := rest\<rparr>"
  from next_frame.IH obtain evss tail rest' where
    "world_of (MainLoop ?w) =
       ?w\<lparr>gQuit := SDL_QUIT \<in> set (concat evss @ tail),
          calls := calls ?w @ concat (map (frame_trace ?w) evss) @ poll_calls tail,
          pending := rest'\<rparr>"
    by blast
  moreover have "MainLoop w = MainLoop ?w"
    using next_frame by (simp add: MainLoop_next_frame)
  moreover have "frame_trace ?w = frame_trace w" by simp
  ultimately have "world_of (MainLoop w) =
      w\<lparr>gQuit := SDL_QUIT \<in> set (concat evss @ tail),
        calls := calls w @ (poll_calls evs @ [SDL_PollEvent None] @ frame_calls w)
          @ concat (map (frame_trace w) evss) @ poll_calls tail,
        pending := rest'\<rparr>"
    by (simp only: world_update_twice)
  then have "world_of (MainLoop w) =
      w\<lparr>gQuit := SDL_QUIT \<in> set (concat (evs # evss) @ tail),
        calls := calls w @ concat (map (frame_trace w) (evs # evss)) @ poll_calls tail,
        pending := rest'\<rparr>"
    using next_frame(3) by (simp add: frame_trace_def)
  then show ?case by blast
qed

lemma main_frames:
  assumes "init_ok env" and "pipeline_ok env"
  shows "\<exists>evss tail td rest.
    main_world (main env ps) =
      (setup_world env ps)
        \<lparr>gQuit := SDL_QUIT \<in> set (concat evss @ tail),
         calls := setup_calls env @ concat (map (frame_trace (setup_world env ps)) evss)
           @ poll_calls tail @ td,
         pending := rest\<rparr>
    \<and> (td = [] \<or> td = [SDL_DestroyWindow (SDL_CreateWindow_ret env), SDL_Quit])"
proof -
  let ?w = "setup_world env ps"
  from MainLoop_frames [of ?w] obtain evss tail rest where
    e: "world_of (MainLoop ?w) =
      ?w\<lparr>gQuit := SDL_QUIT \<in> set (concat evss @ tail),
         calls := calls ?w @ concat (map (frame_trace ?w) evss) @ poll_calls tail,
         pending := rest\<rparr>"
    by auto
  show ?thesis
  proof (cases "MainLoop ?w")
    case (Inl x)
    obtain s w' where "x = (s, w')" by (cases x)
    with Inl e assms have "main_world (main env ps) =
        ?w\<lparr>gQuit := SDL_QUIT \<in> set (concat evss @ tail),
           calls := setup_calls env @ concat (map (frame_trace ?w) evss) @ poll_calls tail @ [],
           pending := rest\<rparr>"
      by (simp add: main_after_setup)
    then show ?thesis by blast
  next
    case (Inr w')
    with e assms have "main_world (main env ps) =
        ?w\<lparr>gQuit := SDL_QUIT \<in> set (concat evss @ tail),
           calls := setup_calls env @ concat (map (frame_trace ?w) evss) @ poll_calls tail
             @ [SDL_DestroyWindow (SDL_CreateWindow_ret env), SDL_Quit],
           pending := rest\<rparr>"
      by (simp add: main_after_setup CleanUp_eq)
    then show ?thesis by blast
  qed
qed

lemma concat_map_const:
  "(\<And>x. x \<in> set xs \<Longrightarrow> f x = c) \<Longrightarrow> concat (map f xs) = concat (replicate (length xs) c)"
  by (induction xs) auto

lemma filter_poll_calls_none:
  assumes "\<And>p. \<not> P (SDL_PollEvent p)" and "\<not> P (cout (''Goodbye!'' @ endl))"
  shows "filter P (poll_calls evs) = []"
  using assms by (induction evs) auto

lemma filter_frames:
  assumes "\<And>p. \<not> P (SDL_PollEvent p)" and "\<not> P (cout (''Goodbye!'' @ endl))"
  shows "filter P (concat (map (frame_trace w) evss) @ poll_calls tail) =
    concat (replicate (length evss) (filter P (frame_calls w)))"
proof -
  have "filter P (frame_trace w evs) = filter P (frame_calls w)" for evs
    using assms by (simp add: frame_trace_def filter_poll_calls_none)
  then have "concat (map (\<lambda>evs. filter P (frame_trace w evs)) evss) =
      concat (replicate (length evss) (filter P (frame_calls w)))"
    by (intro concat_map_const)
  then show ?thesis
    using assms by (simp add: filter_concat comp_def filter_poll_calls_none)
qed


lemma filter_teardown [simp]:
  "td = [] \<or> td = [SDL_DestroyWindow x, SDL_Quit] \<Longrightarrow> filter is_open td = []"
  "td = [] \<or> td = [SDL_DestroyWindow x, SDL_Quit] \<Longrightarrow> filter builds_program td = []"
  "td = [] \<or> td = [SDL_DestroyWindow x, SDL_Quit] \<Longrightarrow> filter (\<lambda>c. is_use c \<or> is_draw c) td = []"
  by auto

lemma filter_frame_calls [simp]:
  "filter is_open (frame_calls w) = []"
  "filter builds_program (frame_calls w) = []"
  "filter (\<lambda>c. is_use c \<or> is_draw c) (frame_calls w) =
     [glUseProgram (gGraphicsPipelineShaderProgram w),
      glDrawElements GL_TRIANGLES 6 GL_UNSIGNED_INT 0, glUseProgram 0]"
  by (simp_all add: frame_calls_def)

text \<open>
  An environment like the sample, but each file holds the three bytes \<open>a\<close>, zero and
  \<open>b\<close>.
\<close>

definition env_zero_byte :: env where
  "env_zero_byte = env_sample\<lparr>file_contents := (\<lambda>f. Some (''a'' @ [CHR 0x00] @ ''b''))\<rparr>"

text \<open>
  C6, as the code has it. \<open>W\<close> is the state in which a run of \<^verbatim>\<open>main\<close> has returned,
  has stopped or is still polling. The files that the run opens are the two constant
  paths, in this order, when no check of the initialization fails, and none otherwise.
  When no check of the initialization fails and no compilation fails with a negative
  length of its log: the calls that build the program are, in this order, the opening
  of the two files, the creation of the program, then for the vertex shader and for the
  fragment shader the creation of the shader, the handing over of the lines of its file,
  as OpenGL reads a C string, and its compilation, then the attaching of what
  \<^verbatim>\<open>CompileShader\<close> has returned for the two shaders, and the linking; all of them are
  made before the first call of \<^verbatim>\<open>SDL_PollEvent\<close>; the program id is the value of the
  global handle; and every draw call is made with this program bound, which is unbound
  right after. When a check of the initialization fails, no such call is made and the
  handle keeps its initial value 0; when a compilation fails with a negative length of
  its log, nothing is linked, the loop is not entered and the handle keeps the value 0.
\<close>

theorem fixed_shader_pair:
  assumes "W = main_world (main env ps)"
  shows "filter is_open (calls W) =
      (if init_ok env
       then [ifstream_open ''./shaders/vert.glsl'', ifstream_open ''./shaders/frag.glsl'']
       else [])
    \<and> (init_ok env \<and> pipeline_ok env \<longrightarrow>
         filter builds_program (calls W) =
           [ifstream_open ''./shaders/vert.glsl'', ifstream_open ''./shaders/frag.glsl'',
            glCreateProgram,
            glCreateShader GL_VERTEX_SHADER,
            glShaderSource (glCreateShader_ret env GL_VERTEX_SHADER)
              (c_str (file_text env ''./shaders/vert.glsl'')),
            glCompileShader (glCreateShader_ret env GL_VERTEX_SHADER),
            glCreateShader GL_FRAGMENT_SHADER,
            glShaderSource (glCreateShader_ret env GL_FRAGMENT_SHADER)
              (c_str (file_text env ''./shaders/frag.glsl'')),
            glCompileShader (glCreateShader_ret env GL_FRAGMENT_SHADER),
            glAttachShader (glCreateProgram_ret env)
              (if glGetShaderiv_ret env (glCreateShader_ret env GL_VERTEX_SHADER)
                    GL_COMPILE_STATUS = GL_FALSE
               then 0 else glCreateShader_ret env GL_VERTEX_SHADER),
            glAttachShader (glCreateProgram_ret env)
              (if glGetShaderiv_ret env (glCreateShader_ret env GL_FRAGMENT_SHADER)
                    GL_COMPILE_STATUS = GL_FALSE
               then 0 else glCreateShader_ret env GL_FRAGMENT_SHADER),
            glLinkProgram (glCreateProgram_ret env)]
         \<and> filter builds_program (takeWhile (\<lambda>c. \<not> is_poll c) (calls W)) =
             filter builds_program (calls W)
         \<and> gGraphicsPipelineShaderProgram W = glCreateProgram_ret env
         \<and> filter (\<lambda>c. is_use c \<or> is_draw c) (calls W) =
             concat (replicate (frames_drawn (calls W))
               [glUseProgram (glCreateProgram_ret env),
                glDrawElements GL_TRIANGLES 6 GL_UNSIGNED_INT 0,
                glUseProgram 0]))
    \<and> (\<not> init_ok env \<longrightarrow>
         filter builds_program (calls W) = [] \<and> gGraphicsPipelineShaderProgram W = 0)
    \<and> (init_ok env \<and> \<not> pipeline_ok env \<longrightarrow>
         filter is_link (calls W) = [] \<and> filter is_poll (calls W) = []
         \<and> gGraphicsPipelineShaderProgram W = 0)"
proof (intro conjI impI)
  show "filter is_open (calls W) =
      (if init_ok env
       then [ifstream_open ''./shaders/vert.glsl'', ifstream_open ''./shaders/frag.glsl'']
       else [])"
  proof (cases "init_ok env")
    case False
    then show ?thesis using assms by (simp add: main_init_failure_calls)
  next
    case True
    show ?thesis
    proof (cases "pipeline_ok env")
      case False
      with True show ?thesis
        using assms by (simp add: main_pipeline_throws filter_setup_calls_more)
    next
      case pok: True
      let ?w = "setup_world env ps"
      from main_frames [OF True pok, of ps] obtain evss tail td rest where
        "main_world (main env ps) = ?w\<lparr>gQuit := SDL_QUIT \<in> set (concat evss @ tail),
           calls := setup_calls env @ concat (map (frame_trace ?w) evss) @ poll_calls tail @ td,
           pending := rest\<rparr>"
        and td: "td = [] \<or> td = [SDL_DestroyWindow (SDL_CreateWindow_ret env), SDL_Quit]"
        by blast
      with assms have "calls W =
          setup_calls env @ (concat (map (frame_trace ?w) evss) @ poll_calls tail) @ td"
        by simp
      with True show ?thesis
        using td filter_frames [of is_open ?w evss tail]
        by (simp add: filter_setup_calls_more)
    qed
  qed
next
  assume "init_ok env \<and> pipeline_ok env"
  then have ok: "init_ok env" and pok: "pipeline_ok env" by simp_all
  let ?w = "setup_world env ps"
  from main_frames [OF ok pok, of ps] obtain evss tail td rest where
    "main_world (main env ps) = ?w\<lparr>gQuit := SDL_QUIT \<in> set (concat evss @ tail),
         calls := setup_calls env @ concat (map (frame_trace ?w) evss) @ poll_calls tail @ td,
         pending := rest\<rparr>"
    and td: "td = [] \<or> td = [SDL_DestroyWindow (SDL_CreateWindow_ret env), SDL_Quit]"
    by blast
  with assms have W: "W = ?w\<lparr>gQuit := SDL_QUIT \<in> set (concat evss @ tail),
         calls := setup_calls env @ concat (map (frame_trace ?w) evss) @ poll_calls tail @ td,
         pending := rest\<rparr>"
    by simp
  let ?t = "concat (map (frame_trace ?w) evss) @ poll_calls tail"
  have c: "calls W = setup_calls env @ ?t @ td" using W by simp
  have none: "filter builds_program (?t @ td) = []"
    using td filter_frames [of builds_program ?w evss tail] by simp
  then have all: "filter builds_program (calls W) = filter builds_program (setup_calls env)"
    by (simp add: c)
  then show "filter builds_program (calls W) =
           [ifstream_open ''./shaders/vert.glsl'', ifstream_open ''./shaders/frag.glsl'',
            glCreateProgram,
            glCreateShader GL_VERTEX_SHADER,
            glShaderSource (glCreateShader_ret env GL_VERTEX_SHADER)
              (c_str (file_text env ''./shaders/vert.glsl'')),
            glCompileShader (glCreateShader_ret env GL_VERTEX_SHADER),
            glCreateShader GL_FRAGMENT_SHADER,
            glShaderSource (glCreateShader_ret env GL_FRAGMENT_SHADER)
              (c_str (file_text env ''./shaders/frag.glsl'')),
            glCompileShader (glCreateShader_ret env GL_FRAGMENT_SHADER),
            glAttachShader (glCreateProgram_ret env)
              (if glGetShaderiv_ret env (glCreateShader_ret env GL_VERTEX_SHADER)
                    GL_COMPILE_STATUS = GL_FALSE
               then 0 else glCreateShader_ret env GL_VERTEX_SHADER),
            glAttachShader (glCreateProgram_ret env)
              (if glGetShaderiv_ret env (glCreateShader_ret env GL_FRAGMENT_SHADER)
                    GL_COMPILE_STATUS = GL_FALSE
               then 0 else glCreateShader_ret env GL_FRAGMENT_SHADER),
            glLinkProgram (glCreateProgram_ret env)]"
    by (simp only: builds_program_setup_calls [OF pok] compile_value_def compile_failed_def)
  have "filter builds_program (takeWhile (\<lambda>c. \<not> is_poll c) (?t @ td)) = []"
    using none by (rule filter_takeWhile_none)
  then have "filter builds_program (takeWhile (\<lambda>c. \<not> is_poll c) (calls W)) =
      filter builds_program (setup_calls env)"
    using takeWhile_no_poll_setup [of env "?t @ td"] by (simp add: c)
  with all show "filter builds_program (takeWhile (\<lambda>c. \<not> is_poll c) (calls W)) =
      filter builds_program (calls W)"
    by simp
  show "gGraphicsPipelineShaderProgram W = glCreateProgram_ret env"
    using W by simp
  have u: "filter (\<lambda>c. is_use c \<or> is_draw c) (calls W) =
      concat (replicate (length evss)
        [glUseProgram (glCreateProgram_ret env),
         glDrawElements GL_TRIANGLES 6 GL_UNSIGNED_INT 0,
         glUseProgram 0])"
    using td filter_frames [of "\<lambda>c. is_use c \<or> is_draw c" ?w evss tail]
    by (simp add: c filter_setup_calls_more)
  have "frames_drawn (calls W) = length evss"
    unfolding frames_drawn_def draws_of_binds [of "calls W"] u by (rule draws_of_frames)
  with u show "filter (\<lambda>c. is_use c \<or> is_draw c) (calls W) =
      concat (replicate (frames_drawn (calls W))
        [glUseProgram (glCreateProgram_ret env),
         glDrawElements GL_TRIANGLES 6 GL_UNSIGNED_INT 0,
         glUseProgram 0])"
    by simp
next
  assume "\<not> init_ok env"
  then show "filter builds_program (calls W) = []" and "gGraphicsPipelineShaderProgram W = 0"
    using assms by (simp_all add: main_init_failure_calls)
next
  assume "init_ok env \<and> \<not> pipeline_ok env"
  then have W: "W = (setup_world env ps)\<lparr>gGraphicsPipelineShaderProgram := 0\<rparr>"
    and throws: "\<not> pipeline_ok env"
    using assms by (simp_all add: main_pipeline_throws)
  show "filter is_link (calls W) = []"
    using no_link_when_throws [OF throws] by (simp add: W)
  show "filter is_poll (calls W) = []"
    by (simp add: W filter_setup_calls_more)
  show "gGraphicsPipelineShaderProgram W = 0"
    by (simp add: W)
qed

theorem fixed_shader_pair_witness:
  "init_ok env_sample \<and> pipeline_ok env_sample
   \<and> filter is_open (calls (main_world (main env_sample [Some SDL_QUIT, None]))) =
      [ifstream_open ''./shaders/vert.glsl'', ifstream_open ''./shaders/frag.glsl'']
   \<and> filter builds_program (calls (main_world (main env_sample [Some SDL_QUIT, None]))) =
      [ifstream_open ''./shaders/vert.glsl'', ifstream_open ''./shaders/frag.glsl'',
       glCreateProgram,
       glCreateShader GL_VERTEX_SHADER,
       glShaderSource 1 (''void main(){}'' @ [CHR 0x0A]),
       glCompileShader 1,
       glCreateShader GL_FRAGMENT_SHADER, glShaderSource 2 [], glCompileShader 2,
       glAttachShader 3 1, glAttachShader 3 0, glLinkProgram 3]
   \<and> filter builds_program
        (takeWhile (\<lambda>c. \<not> is_poll c) (calls (main_world (main env_sample [Some SDL_QUIT, None])))) =
      filter builds_program (calls (main_world (main env_sample [Some SDL_QUIT, None])))
   \<and> gGraphicsPipelineShaderProgram (main_world (main env_sample [Some SDL_QUIT, None])) = 3
   \<and> filter (\<lambda>c. is_use c \<or> is_draw c)
        (calls (main_world (main env_sample [Some SDL_QUIT, None]))) =
      concat (replicate (frames_drawn (calls (main_world (main env_sample [Some SDL_QUIT, None]))))
        [glUseProgram 3, glDrawElements GL_TRIANGLES 6 GL_UNSIGNED_INT 0, glUseProgram 0])
   \<and> init_ok env_zero_byte \<and> pipeline_ok env_zero_byte
   \<and> filter is_source (calls (main_world (main env_zero_byte [Some SDL_QUIT, None]))) =
      [glShaderSource 1 ''a'', glShaderSource 2 ''a'']
   \<and> \<not> init_ok env_no_context
   \<and> filter builds_program (calls (main_world (main env_no_context [Some SDL_QUIT, None]))) = []
   \<and> init_ok env_negative_log \<and> \<not> pipeline_ok env_negative_log
   \<and> filter is_link (calls (main_world (main env_negative_log [Some SDL_QUIT, None]))) = []
   \<and> gGraphicsPipelineShaderProgram (main_world (main env_negative_log [Some SDL_QUIT, None])) = 0"
proof -
  have s: "c_str (file_text env_sample ''./shaders/vert.glsl'') = ''void main(){}'' @ [CHR 0x0A]"
    "c_str (file_text env_sample ''./shaders/frag.glsl'') = []"
    "glCreateShader_ret env_sample GL_VERTEX_SHADER = 1"
    "glCreateShader_ret env_sample GL_FRAGMENT_SHADER = 2"
    "glGetShaderiv_ret env_sample 1 GL_COMPILE_STATUS = 1"
    "glGetShaderiv_ret env_sample 2 GL_COMPILE_STATUS = 0"
    "glCreateProgram_ret env_sample = 3"
    by (simp_all add: file_text_def c_str_def env_sample_def)
  have n: "\<not> init_ok env_no_context"
    by (simp add: init_ok_def env_no_context_def)
  have z: "init_ok env_zero_byte" "pipeline_ok env_zero_byte"
    "c_str (file_text env_zero_byte ''./shaders/vert.glsl'') = ''a''"
    "c_str (file_text env_zero_byte ''./shaders/frag.glsl'') = ''a''"
    "glCreateShader_ret env_zero_byte GL_VERTEX_SHADER = 1"
    "glCreateShader_ret env_zero_byte GL_FRAGMENT_SHADER = 2"
    by (simp_all add: init_ok_def pipeline_ok_def compile_throws_def info_log_length_def
        file_text_def c_str_def env_zero_byte_def env_sample_def nullptr_def)
  have "filter is_source (filter builds_program cs) = filter is_source cs" for cs
    by (induction cs) (auto elim: is_source.elims)
  then have f: "filter is_source (calls (main_world (main env_zero_byte [Some SDL_QUIT, None]))) =
      filter is_source
        (filter builds_program (calls (main_world (main env_zero_byte [Some SDL_QUIT, None]))))"
    by simp
  from fixed_shader_pair [OF refl, of env_sample "[Some SDL_QUIT, None]"]
    fixed_shader_pair [OF refl, of env_zero_byte "[Some SDL_QUIT, None]"]
    fixed_shader_pair [OF refl, of env_no_context "[Some SDL_QUIT, None]"]
    fixed_shader_pair [OF refl, of env_negative_log "[Some SDL_QUIT, None]"]
    init_ok_env_sample pipeline_ok_env_sample n
    init_ok_env_negative_log not_pipeline_ok_env_negative_log
  show ?thesis
    by (simp add: s z f GL_FALSE_def)
qed

text \<open>
  C6 as stated fails when the OpenGL functions cannot be loaded: the program stops
  inside \<^verbatim>\<open>InitializeProgram\<close>, no shader file is opened, nothing is compiled or linked,
  and the handle is still 0.
\<close>

theorem no_shader_loaded_counterexample:
  "main env_no_glad [Some SDL_QUIT, None] =
     Inl (Exit 1,
          (globals_start [Some SDL_QUIT, None])
            \<lparr>gGraphicsApplicationWindow := 1, gOpenGLContext := 2,
             calls :=
               [SDL_Init SDL_INIT_VIDEO,
                SDL_GL_SetAttribute SDL_GL_CONTEXT_MAJOR_VERSION (Lit 4),
                SDL_GL_SetAttribute SDL_GL_CONTEXT_MINOR_VERSION (Lit 1),
                SDL_GL_SetAttribute SDL_GL_CONTEXT_PROFILE_MASK
                  (Const SDL_GL_CONTEXT_PROFILE_CORE),
                SDL_GL_SetAttribute SDL_GL_DOUBLEBUFFER (Lit 1),
                SDL_GL_SetAttribute SDL_GL_DEPTH_SIZE (Lit 2),
                SDL_CreateWindow ''OpenGL Window'' 0 0 640 480 SDL_WINDOW_OPENGL,
                SDL_GL_CreateContext 1, gladLoadGLLoader,
                cout (''glad was not initialized'' @ endl)]\<rparr>)
   \<and> filter builds_program (calls (main_world (main env_no_glad [Some SDL_QUIT, None]))) = []
   \<and> gGraphicsPipelineShaderProgram (main_world (main env_no_glad [Some SDL_QUIT, None])) = 0
   \<and> glCreateProgram_ret env_no_glad = 3"
proof -
  have "0 \<le> SDL_Init_ret env_no_glad" and "SDL_CreateWindow_ret env_no_glad \<noteq> nullptr"
    and "SDL_GL_CreateContext_ret env_no_glad \<noteq> nullptr" and "gladLoadGLLoader_ret env_no_glad = 0"
    and "SDL_CreateWindow_ret env_no_glad = 1" and "SDL_GL_CreateContext_ret env_no_glad = 2"
    and "glCreateProgram_ret env_no_glad = 3"
    by (simp_all add: env_no_glad_def env_sample_def nullptr_def)
  then show ?thesis
    by (simp add: main_def InitializeProgram_no_glad globals_start_def window_calls_def)
qed

subsection \<open>The quit flag\<close>

lemma gQuit_InitializeProgram: "gQuit (world_of (InitializeProgram env w)) = gQuit w"
  by (simp add: InitializeProgram_def GetOpenGLVersionInfo_def Let_def emit_def)

lemma gQuit_Input:
  "gQuit (world_of (Input w)) \<longleftrightarrow>
     gQuit w \<or> SDL_PollEvent (Some SDL_QUIT) \<in> set (drop (length (calls w)) (calls (world_of (Input w))))"
proof -
  from pending_split [of "pending w"] show ?thesis
  proof
    assume "\<exists>evs. pending w = map Some evs"
    then obtain evs where "pending w = map Some evs" ..
    then show ?thesis by (simp add: Input_starved)
  next
    assume "\<exists>evs rest. pending w = map Some evs @ None # rest"
    then obtain evs rest where "pending w = map Some evs @ None # rest" by blast
    then show ?thesis by (simp add: Input_drained)
  qed
qed

lemma gQuit_MainLoop:
  assumes "\<not> gQuit w"
  shows "gQuit (world_of (MainLoop w)) \<longleftrightarrow> Some SDL_QUIT \<in> set (pending w)"
  using assms
proof (induction w rule: MainLoop_frames_induct)
  case (starved w evs)
  then show ?case by (auto simp: MainLoop_starved)
next
  case (last_frame w evs rest)
  then show ?case by (auto simp: MainLoop_last_frame)
next
  case (next_frame w evs rest)
  then show ?case by (auto simp: MainLoop_next_frame)
qed

lemma gQuit_main:
  "gQuit (main_world (main env ps)) \<longleftrightarrow>
     init_ok env \<and> pipeline_ok env \<and> Some SDL_QUIT \<in> set ps"
proof (cases "init_ok env")
  case True
  show ?thesis
  proof (cases "pipeline_ok env")
    case pok: True
    let ?w = "setup_world env ps"
    have "gQuit (main_world (main env ps)) = gQuit (world_of (MainLoop ?w))"
      using True pok by (simp add: main_after_setup CleanUp_eq split: sum.split)
    with True pok show ?thesis by (simp add: gQuit_MainLoop)
  next
    case False
    with True show ?thesis by (simp add: main_pipeline_throws)
  qed
next
  case False
  then obtain w' where i: "InitializeProgram env (globals_start ps) = Inl (Exit 1, w')"
    using InitializeProgram_fails by blast
  then have "main_world (main env ps) = world_of (InitializeProgram env (globals_start ps))"
    by (simp add: main_def)
  then have "gQuit (main_world (main env ps)) = gQuit (globals_start ps)"
    by (simp only: gQuit_InitializeProgram)
  with False show ?thesis by (simp add: globals_start_def)
qed

text \<open>
  C10. The quit flag starts false. No function but \<^verbatim>\<open>Input\<close> (and \<^verbatim>\<open>MainLoop\<close>,
  which calls it) changes it; \<^verbatim>\<open>Input\<close> leaves it set if and only if it was set before
  or an \<^verbatim>\<open>SDL_QUIT\<close> event is polled, so that no function resets it. In a run of
  \<^verbatim>\<open>main\<close> it is set if and only if an \<^verbatim>\<open>SDL_QUIT\<close> event has been polled, and once
  it is set it stays set however the run goes on: whatever further answers \<open>qs\<close> of
  \<^verbatim>\<open>SDL_PollEvent\<close> follow.
\<close>

theorem gQuit_monotone:
  "\<not> gQuit (globals_start ps)
   \<and> gQuit (world_of (InitializeProgram env w)) = gQuit w
   \<and> gQuit (VertexSpecification env w) = gQuit w
   \<and> gQuit (world_of (CreateGraphicsPipeline env w)) = gQuit w
   \<and> gQuit (PreDraw w) = gQuit w
   \<and> gQuit (Draw w) = gQuit w
   \<and> gQuit (CleanUp w) = gQuit w
   \<and> (gQuit (world_of (Input w)) \<longleftrightarrow>
        gQuit w \<or> SDL_PollEvent (Some SDL_QUIT)
                     \<in> set (drop (length (calls w)) (calls (world_of (Input w)))))
   \<and> (gQuit w \<longrightarrow> gQuit (world_of (Input w)))
   \<and> (gQuit w \<longrightarrow> gQuit (world_of (MainLoop w)))
   \<and> (gQuit (main_world (main env ps)) \<longleftrightarrow>
        SDL_PollEvent (Some SDL_QUIT) \<in> set (calls (main_world (main env ps))))
   \<and> (gQuit (main_world (main env ps)) \<longrightarrow> gQuit (main_world (main env (ps @ qs))))"
proof -
  have 1: "\<not> gQuit (globals_start ps)" by (simp add: globals_start_def)
  have 2: "gQuit (world_of (InitializeProgram env w)) = gQuit w"
    by (rule gQuit_InitializeProgram)
  have 3: "gQuit (VertexSpecification env w) = gQuit w"
    by (simp add: VertexSpecification_eq)
  have 4: "gQuit (world_of (CreateGraphicsPipeline env w)) = gQuit w"
    by (simp add: CreateGraphicsPipeline_eq)
  have 5: "gQuit (PreDraw w) = gQuit w" by (simp add: PreDraw_def Let_def emit_def)
  have 6: "gQuit (Draw w) = gQuit w" by (simp add: Draw_def Let_def emit_def)
  have 7: "gQuit (CleanUp w) = gQuit w" by (simp add: CleanUp_eq)
  have 8: "gQuit (world_of (Input w)) \<longleftrightarrow>
        gQuit w \<or> SDL_PollEvent (Some SDL_QUIT)
                     \<in> set (drop (length (calls w)) (calls (world_of (Input w))))"
    by (rule gQuit_Input)
  then have 9: "gQuit w \<longrightarrow> gQuit (world_of (Input w))" by simp
  have 10: "gQuit w \<longrightarrow> gQuit (world_of (MainLoop w))" by simp
  have 11: "gQuit (main_world (main env ps)) \<longleftrightarrow>
        SDL_PollEvent (Some SDL_QUIT) \<in> set (calls (main_world (main env ps)))"
  proof (cases "init_ok env")
    case True
    let ?w = "setup_world env ps"
    have no_poll: "SDL_PollEvent (Some SDL_QUIT) \<notin> set (setup_calls env)"
      using filter_setup_calls_more(2) [of env] by (auto simp: filter_empty_conv)
    show ?thesis
    proof (cases "pipeline_ok env")
      case pok: True
      from main_frames [OF True pok, of ps] obtain evss tail td rest where
        W: "main_world (main env ps) = ?w\<lparr>gQuit := SDL_QUIT \<in> set (concat evss @ tail),
           calls := setup_calls env @ concat (map (frame_trace ?w) evss) @ poll_calls tail @ td,
           pending := rest\<rparr>"
        and td: "td = [] \<or> td = [SDL_DestroyWindow (SDL_CreateWindow_ret env), SDL_Quit]"
        by blast
      have "SDL_PollEvent (Some SDL_QUIT) \<notin> set td"
        using td by auto
      moreover have "SDL_PollEvent (Some SDL_QUIT) \<in> set (concat (map (frame_trace ?w) evss))
          \<longleftrightarrow> SDL_QUIT \<in> set (concat evss)"
        by (auto simp: frame_trace_def)
      ultimately show ?thesis
        unfolding W using no_poll by auto
    next
      case False
      with True no_poll show ?thesis
        by (simp add: main_pipeline_throws)
    qed
  next
    case False
    then obtain w' where i: "InitializeProgram env (globals_start ps) = Inl (Exit 1, w')"
      using InitializeProgram_fails by blast
    then have m: "main_world (main env ps) = world_of (InitializeProgram env (globals_start ps))"
      by (simp add: main_def)
    have "SDL_PollEvent (Some SDL_QUIT)
        \<notin> set (calls (world_of (InitializeProgram env (globals_start ps))))"
      by (simp add: InitializeProgram_def GetOpenGLVersionInfo_def Let_def emit_def
          globals_start_def)
    moreover have "\<not> gQuit (main_world (main env ps))"
      using False by (simp add: gQuit_main)
    ultimately show ?thesis using m by simp
  qed
  have 12: "gQuit (main_world (main env ps)) \<longrightarrow> gQuit (main_world (main env (ps @ qs)))"
    by (auto simp: gQuit_main)
  from 1 2 3 4 5 6 7 8 9 10 11 12 show ?thesis by blast
qed


theorem gQuit_monotone_witness:
  "gQuit ((globals_start [Some (SDL_OTHER 1), None])\<lparr>gQuit := True\<rparr>)
   \<and> gQuit (world_of (Input ((globals_start [Some (SDL_OTHER 1), None])\<lparr>gQuit := True\<rparr>)))
   \<and> gQuit (world_of (MainLoop ((globals_start [Some (SDL_OTHER 1), None])\<lparr>gQuit := True\<rparr>)))
   \<and> gQuit (main_world (main env_sample [None, Some SDL_QUIT]))
   \<and> gQuit (main_world (main env_sample ([None, Some SDL_QUIT] @ [Some (SDL_OTHER 1), None])))"
proof -
  let ?w = "(globals_start [Some (SDL_OTHER 1), None])\<lparr>gQuit := True\<rparr>"
  have g: "gQuit ?w" by simp
  have m: "gQuit (main_world (main env_sample [None, Some SDL_QUIT]))"
    by (simp add: gQuit_main init_ok_env_sample pipeline_ok_env_sample)
  from gQuit_monotone [of _ _ ?w] g
  have "gQuit (world_of (Input ?w))" and "gQuit (world_of (MainLoop ?w))"
    by blast+
  moreover from gQuit_monotone [of "[None, Some SDL_QUIT]" env_sample _ "[Some (SDL_OTHER 1), None]"] m
  have "gQuit (main_world (main env_sample ([None, Some SDL_QUIT] @ [Some (SDL_OTHER 1), None])))"
    by blast
  ultimately show ?thesis using g m by blast
qed

end
